theory Spec2Isabelle
  imports Main "HOL-Library.Word"
begin

section \<open>Data model of the plan-node tree\<close>

text \<open>
  The plan nodes of \<^verbatim>\<open>src/ee/plannodes/abstractplannode.cpp\<close> are C++ objects that refer to
  each other through raw pointers: tree children and parents are non-owning pointers, inline
  nodes are owned pointers kept in a \<^verbatim>\<open>std::map\<close> keyed by node type. A chain of first
  children may therefore share nodes or even be cyclic, so the nodes live in an explicit
  store: an address is a natural number, a possibly-NULL pointer is an \<open>addr option\<close>
  (\<open>None\<close> is NULL), and the store maps every address to the object found there.
\<close>

type_synonym addr = nat

text \<open>
  Modelled from the spec: the enumeration \<^verbatim>\<open>PlanNodeType\<close> is declared in a header that is not
  part of the sources at hand. The code under study names the projection type only; the
  other constructors stand for the remaining "fixed enumerated node types" of the data model.
\<close>

datatype PlanNodeType =
    PLAN_NODE_TYPE_INVALID
  | PLAN_NODE_TYPE_SEQSCAN
  | PLAN_NODE_TYPE_PROJECTION
  | PLAN_NODE_TYPE_LIMIT
  | PLAN_NODE_TYPE_TABLECOUNT
  | PLAN_NODE_TYPE_SEND

text \<open>
  The diagnostic text of a plan is assembled by streaming values into a buffer. What the
  rendering of a value looks like is decided outside the sources at hand
  (\<^verbatim>\<open>planNodeToString\<close>, the stream operator of the enumeration, the virtual \<^verbatim>\<open>debugInfo\<close> of
  the concrete class), so the buffer is kept as the sequence of the values streamed into
  it: a character string, the name of a node type, a node type streamed as such, a number,
  and the \<^verbatim>\<open>debugInfo\<close> of the node at an address for a given spacer.
\<close>

datatype DebugItem =
    DbgText string
  | DbgTypeName PlanNodeType
  | DbgTypeValue PlanNodeType
  | DbgNumber int
  | DbgInfo addr string

text \<open>
  Failures are values. \<open>FatalLogicError\<close> is what \<^verbatim>\<open>throwFatalLogicErrorStreamed\<close> throws,
  with the message streamed into it; \<open>NullPointerDereference\<close> is the crash of a member call
  through a NULL pointer; \<open>AssertionFailure\<close> is a failed \<^verbatim>\<open>assert\<close> (the model is the build
  with assertions enabled); \<open>SerializableEEException\<close> is the structured execution exception
  with its classification and message.
\<close>

datatype EEExceptionType = VOLT_EE_EXCEPTION_TYPE_EEEXCEPTION | VOLT_EE_EXCEPTION_TYPE_OTHER

datatype error =
    FatalLogicError "DebugItem list"
  | NullPointerDereference
  | AssertionFailure
  | SerializableEEException EEExceptionType string

text \<open>
  Modelled from the spec: a \<^verbatim>\<open>SchemaColumn\<close> is "an owned expression (produces a value type and
  byte size)" plus "an optional display name"; the classes \<^verbatim>\<open>SchemaColumn\<close> and
  \<^verbatim>\<open>AbstractExpression\<close> themselves are declared outside the sources at hand.
\<close>

datatype ValueType = VALUE_TYPE_INTEGER | VALUE_TYPE_BIGINT | VALUE_TYPE_VARCHAR

record AbstractExpression =
  getValueType :: ValueType
  getValueSize :: int

record SchemaColumn =
  getExpression :: AbstractExpression
  getColumnName :: string

text \<open>
  Modelled from the spec: the class \<^verbatim>\<open>TableCountPlanNode\<close> (\<^verbatim>\<open>plannodes/tablecountnode.h\<close>) is
  not part of the sources at hand; the executor reads its target table pointer and its
  residual filter predicate, both of which may be NULL.
\<close>

record TableCountPlanNode =
  getTargetTable :: "addr option"
  getPredicate :: "AbstractExpression option"

text \<open>
  The members of \<^verbatim>\<open>AbstractPlanNode\<close>. \<open>getPlanNodeType\<close> is the result of the virtual
  method of that name, fixed by the concrete class; \<open>asTableCountPlanNode\<close> is the result of
  \<^verbatim>\<open>dynamic_cast<TableCountPlanNode*>\<close> on the object (\<open>None\<close> when the cast yields NULL).
  \<open>m_validOutputColumnCount\<close> is a plain \<^verbatim>\<open>int\<close>: a value \<open>\<ge> 0\<close> says that the node defines
  its own output schema, the two negative constants below select a delegation.
\<close>

record AbstractPlanNode =
  getPlanNodeType :: PlanNodeType
  asTableCountPlanNode :: "TableCountPlanNode option"
  m_planNodeId :: int
  m_children :: "addr option list"
  m_parents :: "addr option list"
  m_childIds :: "int list"
  m_parentIds :: "int list"
  m_inlineNodes :: "PlanNodeType \<rightharpoonup> addr"
  m_isInline :: bool
  m_outputSchema :: "SchemaColumn list"
  m_validOutputColumnCount :: int
  m_outputTable :: "addr option"
  m_inputTables :: "addr option list"

type_synonym heap = "addr \<Rightarrow> AbstractPlanNode"

text \<open>
  Modelled from the spec: the two "magic (negative)" constants are declared in
  \<^verbatim>\<open>abstractplannode.h\<close>, which is not part of the sources at hand. They are the tags
  DELEGATE_TO_INLINE_PROJECTION and DELEGATE_TO_FIRST_CHILD of the schema origin; every
  theorem below uses only that they are negative and different.
\<close>

definition SCHEMA_UNDEFINED_SO_GET_FROM_INLINE_PROJECTION :: int where
  "SCHEMA_UNDEFINED_SO_GET_FROM_INLINE_PROJECTION = - 1"

definition SCHEMA_UNDEFINED_SO_GET_FROM_CHILD :: int where
  "SCHEMA_UNDEFINED_SO_GET_FROM_CHILD = - 2"

section \<open>Inline plan nodes\<close>

text \<open>
  \<^verbatim>\<open>addInlinePlanNode\<close> stores the pointer under the inline node's type and then sets the
  inline node's flag through the pointer. Both writes go to the store one after the other,
  so the model is right also when host and inline node are the same object.
\<close>

definition addInlinePlanNode :: "heap \<Rightarrow> addr \<Rightarrow> addr \<Rightarrow> heap" where
  "addInlinePlanNode h this inline_node =
     (let h1 = h(this := (h this)\<lparr>m_inlineNodes :=
                 (m_inlineNodes (h this))(getPlanNodeType (h inline_node) \<mapsto> inline_node)\<rparr>)
      in h1(inline_node := (h1 inline_node)\<lparr>m_isInline := True\<rparr>))"

definition getInlinePlanNode :: "heap \<Rightarrow> addr \<Rightarrow> PlanNodeType \<Rightarrow> addr option" where
  "getInlinePlanNode h this type =
     (case m_inlineNodes (h this) type of
        Some ret \<Rightarrow> Some ret
      | None \<Rightarrow> None)"

definition isInline :: "heap \<Rightarrow> addr \<Rightarrow> bool" where
  "isInline h this = m_isInline (h this)"

section \<open>The diagnostic text of a plan\<close>

text \<open>
  \<^verbatim>\<open>debug()\<close> (lines 414 to 421) gives the name of the node type and the id in brackets.
\<close>

definition endl :: string where
  "endl = [CHR 0x0A]"

definition debug :: "heap \<Rightarrow> addr \<Rightarrow> DebugItem list" where
  "debug h this =
     [DbgTypeName (getPlanNodeType (h this)), DbgText ''['',
      DbgNumber (m_planNodeId (h this)), DbgText '']'']"

text \<open>
  A \<^verbatim>\<open>std::map\<close> is iterated in the order of its keys, here the order of the enumeration.
\<close>

definition inlineNodes_in_order :: "AbstractPlanNode \<Rightarrow> (PlanNodeType \<times> addr) list" where
  "inlineNodes_in_order node =
     concat (map (\<lambda>type. case m_inlineNodes node type of
                            None \<Rightarrow> []
                          | Some inline_node \<Rightarrow> [(type, inline_node)])
        [PLAN_NODE_TYPE_INVALID, PLAN_NODE_TYPE_SEQSCAN, PLAN_NODE_TYPE_PROJECTION,
         PLAN_NODE_TYPE_LIMIT, PLAN_NODE_TYPE_TABLECOUNT, PLAN_NODE_TYPE_SEND])"

text \<open>
  \<^verbatim>\<open>debug(const string& spacer)\<close> (lines 429 to 464) first writes the line of the node itself,
  its \<^verbatim>\<open>debugInfo\<close> and, when the inline map is not empty, a line and the \<^verbatim>\<open>debugInfo\<close> of
  every inline node: \<open>debug_head\<close>. It then walks the children ("Traverse the tree").
\<close>

definition debug_head :: "heap \<Rightarrow> addr \<Rightarrow> string \<Rightarrow> DebugItem list" where
  "debug_head h this spacer =
     (let info_spacer = spacer @ ''  |'';
          internal_spacer = info_spacer @ ''  '';
          inlineNodes = inlineNodes_in_order (h this)
      in [DbgText spacer, DbgText ''* ''] @ debug h this @ [DbgText endl] @
         [DbgInfo this info_spacer] @
         (if inlineNodes \<noteq> []
          then [DbgText info_spacer, DbgText ''Inline Plannodes: '',
                DbgNumber (int (length inlineNodes)), DbgText endl] @
               concat (map (\<lambda>(type, inline_node).
                        [DbgText info_spacer, DbgText ''Inline '',
                         DbgTypeName (getPlanNodeType (h inline_node)), DbgText ('':'' @ endl),
                         DbgInfo inline_node internal_spacer]) inlineNodes)
          else []))"

text \<open>
  The loop over the children, from index \<open>ctr\<close> on, of the node \<open>this\<close> that is printed with
  \<open>spacer\<close>. For each child the loop calls \<^verbatim>\<open>getPlanNodeType\<close> and then \<^verbatim>\<open>debug(child_spacer)\<close>
  through the child pointer, without testing it: a NULL child is a crash. The call on the
  child writes the head of the child and walks the children of the child, which is the
  recursive call with index 0. Nothing keeps track of the nodes visited, so on a plan
  whose child pointers form a cycle the recursion has no end: \<open>None\<close>.
\<close>

partial_function (option) debug_children ::
  "heap \<Rightarrow> string \<Rightarrow> addr \<Rightarrow> nat \<Rightarrow> (error + DebugItem list) option" where
  "debug_children h spacer this ctr =
     (if ctr < length (m_children (h this))
      then (case m_children (h this) ! ctr of
              None \<Rightarrow> Some (Inl NullPointerDereference)
            | Some child \<Rightarrow>
                Option.bind (debug_children h (spacer @ ''  '') child 0) (\<lambda>below.
                  case below of
                    Inl e \<Rightarrow> Some (Inl e)
                  | Inr child_text \<Rightarrow>
                      Option.bind (debug_children h spacer this (Suc ctr)) (\<lambda>others.
                        case others of
                          Inl e \<Rightarrow> Some (Inl e)
                        | Inr others_text \<Rightarrow>
                            Some (Inr ([DbgText (spacer @ ''  ''),
                                        DbgTypeValue (getPlanNodeType (h child)), DbgText endl] @
                                       debug_head h child (spacer @ ''  '') @ child_text @
                                       others_text)))))
      else Some (Inr []))"

declare debug_children.simps [code]

definition debug_spacer :: "heap \<Rightarrow> addr \<Rightarrow> string \<Rightarrow> (error + DebugItem list) option" where
  "debug_spacer h this spacer =
     (case debug_children h spacer this 0 of
        None \<Rightarrow> None
      | Some (Inl e) \<Rightarrow> Some (Inl e)
      | Some (Inr children_text) \<Rightarrow> Some (Inr (debug_head h this spacer @ children_text)))"

text \<open>
  \<^verbatim>\<open>debug(bool traverse)\<close> (lines 423 to 427). This is the overload that \<^verbatim>\<open>debug("")\<close> selects:
  a string literal converts to \<^verbatim>\<open>bool\<close> by a standard conversion, to \<^verbatim>\<open>std::string\<close> only by
  a constructor, and the literal is not a NULL pointer, so \<open>traverse\<close> is true.
\<close>

definition debug_traverse :: "heap \<Rightarrow> addr \<Rightarrow> bool \<Rightarrow> (error + DebugItem list) option" where
  "debug_traverse h this traverse =
     (if traverse then debug_spacer h this [] else Some (Inr (debug h this)))"

text \<open>
  A plan below a node is a tree when no child pointer below the node is NULL and no path
  along child pointers goes on for ever; nodes may be shared. On such a plan
  \<^verbatim>\<open>debug(true)\<close> returns.
\<close>

inductive plan_tree :: "heap \<Rightarrow> addr \<Rightarrow> bool" for h :: heap where
  plan_tree_node:
    "None \<notin> set (m_children (h a)) \<Longrightarrow>
     (\<And>c. Some c \<in> set (m_children (h a)) \<Longrightarrow> plan_tree h c) \<Longrightarrow> plan_tree h a"

section \<open>Resolution of the effective output schema\<close>

text \<open>
  Modelled from the spec: the macros \<^verbatim>\<open>throwFatalLogicErrorStreamed\<close> and
  \<^verbatim>\<open>DEBUG_ASSERT_OR_THROW_OR_CRASH\<close> are defined outside the sources at hand. The first
  streams its argument into a message and throws the fatal logic error with it. A violated
  condition of the second is "a fatal invariant violation, not a recoverable error" and is
  taken to do the same with its message. In \<^verbatim>\<open>getOutputSchema\<close> every message ends with
  \<^verbatim>\<open>debug("")\<close> of the node the resolution started at, so the message exists only if that
  call returns: its crash or its endless recursion takes the place of the throw.
\<close>

definition throwFatalLogicErrorStreamed ::
  "string \<Rightarrow> (error + DebugItem list) option \<Rightarrow> (error + 'a) option" where
  "throwFatalLogicErrorStreamed text streamed =
     (case streamed of
        None \<Rightarrow> None
      | Some (Inl e) \<Rightarrow> Some (Inl e)
      | Some (Inr items) \<Rightarrow> Some (Inl (FatalLogicError (DbgText text # items))))"

text \<open>
  An outcome is fatal when it is neither a result nor an exception that a caller is meant
  to handle: the fatal logic error, a crash, or a run that does not come back.
\<close>

definition fatal :: "(error + 'a) option \<Rightarrow> bool" where
  "fatal outcome =
     (case outcome of
        None \<Rightarrow> True
      | Some (Inl (FatalLogicError message)) \<Rightarrow> True
      | Some (Inl NullPointerDereference) \<Rightarrow> True
      | Some (Inl AssertionFailure) \<Rightarrow> False
      | Some (Inl (SerializableEEException type message)) \<Rightarrow> False
      | Some (Inr result) \<Rightarrow> False)"

text \<open>
  The \<^verbatim>\<open>while (true)\<close> loop of \<^verbatim>\<open>getOutputSchema\<close> has no bound, so it is a partial function
  into \<open>option\<close>: \<open>None\<close> is a run that never returns, \<open>Some (Inl e)\<close> a failure and
  \<open>Some (Inr cols)\<close> the vector returned by reference. \<open>this\<close> is the node the resolution
  started at, \<open>parent\<close> the cursor.
\<close>

partial_function (option) getOutputSchema_loop ::
  "heap \<Rightarrow> addr \<Rightarrow> addr \<Rightarrow> (error + SchemaColumn list) option" where
  "getOutputSchema_loop h this parent =
     (if m_validOutputColumnCount (h parent) = SCHEMA_UNDEFINED_SO_GET_FROM_INLINE_PROJECTION
      then (case getInlinePlanNode h parent PLAN_NODE_TYPE_PROJECTION of
              None \<Rightarrow>
                throwFatalLogicErrorStreamed
                  (''Incorrect output schema source for plannode:'' @ endl)
                  (debug_traverse h this True)
            | Some schema_definer \<Rightarrow>
                if m_validOutputColumnCount (h schema_definer) \<ge> 0
                then Some (Inr (m_outputSchema (h schema_definer)))
                else throwFatalLogicErrorStreamed
                       (''Missing output schema for inline projection:'' @ endl)
                       (debug_traverse h this True))
      else if m_validOutputColumnCount (h parent) = SCHEMA_UNDEFINED_SO_GET_FROM_CHILD
      then (case m_children (h parent) of
              [] \<Rightarrow>
                throwFatalLogicErrorStreamed
                  (''Incorrect output schema source for plannode:'' @ endl)
                  (debug_traverse h this True)
            | child # _ \<Rightarrow>
                (case child of
                   None \<Rightarrow>
                     throwFatalLogicErrorStreamed
                       (''Incorrect output schema source for plannode:'' @ endl)
                       (debug_traverse h this True)
                 | Some schema_definer \<Rightarrow>
                     if m_validOutputColumnCount (h schema_definer) \<ge> 0
                     then Some (Inr (m_outputSchema (h schema_definer)))
                     else getOutputSchema_loop h this schema_definer))
      else throwFatalLogicErrorStreamed
             (''No valid output schema defined for plannode:'' @ endl)
             (debug_traverse h this True))"

declare getOutputSchema_loop.simps [code]

definition getOutputSchema :: "heap \<Rightarrow> addr \<Rightarrow> (error + SchemaColumn list) option" where
  "getOutputSchema h this =
     (if m_validOutputColumnCount (h this) \<ge> 0
      then Some (Inr (m_outputSchema (h this)))
      else getOutputSchema_loop h this this)"

text \<open>
  The loop continues in exactly one way: the current node delegates to its first child,
  that child pointer is not NULL, and the child does not define a schema itself.
  \<open>first_child_hop\<close> is this transition (\<^verbatim>\<open>parent = schema_definer; continue;\<close>) and
  \<open>first_child_chain h a b\<close> says that the cursor, started at \<open>a\<close>, reaches \<open>b\<close> after
  finitely many such transitions.
\<close>

definition first_child_hop :: "heap \<Rightarrow> addr \<Rightarrow> addr option" where
  "first_child_hop h parent =
     (if m_validOutputColumnCount (h parent) = SCHEMA_UNDEFINED_SO_GET_FROM_CHILD
      then (case m_children (h parent) of
              [] \<Rightarrow> None
            | child # _ \<Rightarrow>
                (case child of
                   None \<Rightarrow> None
                 | Some schema_definer \<Rightarrow>
                     if m_validOutputColumnCount (h schema_definer) \<ge> 0 then None
                     else Some schema_definer))
      else None)"

inductive first_child_chain :: "heap \<Rightarrow> addr \<Rightarrow> addr \<Rightarrow> bool" for h :: heap where
  chain_here: "first_child_chain h a a"
| chain_hop: "first_child_hop h a = Some c \<Longrightarrow> first_child_chain h c b \<Longrightarrow> first_child_chain h a b"


section \<open>Tuple layouts\<close>

text \<open>
  Modelled from the spec: \<^verbatim>\<open>TupleSchema::createTupleSchema\<close> belongs to \<^verbatim>\<open>common/TupleSchema.h\<close>,
  which is not part of the sources at hand. It builds "a fixed-layout tuple descriptor" from
  the value type, the byte width and the null allowance of each column; the fourth argument
  is the flag for inlined objects. A descriptor is the list of its column layouts.
\<close>

record ColumnLayout =
  columnType :: ValueType
  columnSize :: int
  columnAllowNull :: bool

record TupleSchema =
  schemaColumns :: "ColumnLayout list"
  allowInlinedObjects :: bool

fun zipColumns :: "ValueType list \<Rightarrow> int list \<Rightarrow> bool list \<Rightarrow> ColumnLayout list" where
  "zipColumns (t # ts) (s # ss) (n # ns) =
     \<lparr>columnType = t, columnSize = s, columnAllowNull = n\<rparr> # zipColumns ts ss ns"
| "zipColumns _ _ _ = []"

definition createTupleSchema ::
  "ValueType list \<Rightarrow> int list \<Rightarrow> bool list \<Rightarrow> bool \<Rightarrow> TupleSchema" where
  "createTupleSchema columnTypes columnSizes allowNull allowInlined =
     \<lparr>schemaColumns = zipColumns columnTypes columnSizes allowNull,
      allowInlinedObjects = allowInlined\<rparr>"

definition columnCount_schema :: "TupleSchema \<Rightarrow> nat" where
  "columnCount_schema schema = length (schemaColumns schema)"

text \<open>
  \<^verbatim>\<open>generateTupleSchema\<close> resolves the effective output schema first and then reads type and
  size of each column's expression; \<^verbatim>\<open>generateDMLCountTupleSchema\<close> is a member function as
  well, so it receives the store and its object, and uses neither. \<^verbatim>\<open>sizeof(int64_t)\<close> is 8.
\<close>

definition generateTupleSchema :: "heap \<Rightarrow> addr \<Rightarrow> bool \<Rightarrow> (error + TupleSchema) option" where
  "generateTupleSchema h this allowNulls =
     (case getOutputSchema h this of
        None \<Rightarrow> None
      | Some (Inl e) \<Rightarrow> Some (Inl e)
      | Some (Inr outputSchema) \<Rightarrow>
          (let schema_size = length outputSchema;
               columnTypes = map (\<lambda>col. getValueType (getExpression col)) outputSchema;
               columnSizes = map (\<lambda>col. getValueSize (getExpression col)) outputSchema;
               columnAllowNull = replicate schema_size allowNulls
           in Some (Inr (createTupleSchema columnTypes columnSizes columnAllowNull True))))"

definition generateDMLCountTupleSchema :: "heap \<Rightarrow> addr \<Rightarrow> TupleSchema" where
  "generateDMLCountTupleSchema h this =
     (let columnTypes = replicate 1 VALUE_TYPE_BIGINT;
          columnSizes = replicate 1 (8 :: int);
          columnAllowNull = replicate 1 False
      in createTupleSchema columnTypes columnSizes columnAllowNull True)"

section \<open>Tables\<close>

text \<open>
  Modelled from the spec: the storage classes (\<^verbatim>\<open>Table\<close>, \<^verbatim>\<open>PersistentTable\<close>, \<^verbatim>\<open>TempTable\<close>,
  \<^verbatim>\<open>TableTuple\<close>, \<^verbatim>\<open>ValueFactory\<close>) are not part of the sources at hand. By the storage-table
  contract "a table exposes a visible-row count, a column count, the ability to obtain a
  reusable mutable scratch row, and the ability to append a row", and the visible row count
  is the count of active rows "excluding rows logically deleted but not yet reclaimed". The
  counters are \<^verbatim>\<open>int64_t\<close>, hence 64-bit words; the scratch row has one value per column;
  \<open>isPersistentTable\<close> is whether \<^verbatim>\<open>dynamic_cast<PersistentTable*>\<close> succeeds on the table
  (it does not for a streamed table).
\<close>

datatype NValue = NullValue | BigIntValue "64 word"

definition getBigIntValue :: "64 word \<Rightarrow> NValue" where
  "getBigIntValue v = BigIntValue v"

record Table =
  isPersistentTable :: bool
  tableName :: string
  m_tempTuple :: "NValue list"
  m_tuples :: "NValue list list"
  activeTupleCount :: "64 word"
  pendingDeleteTupleCount :: "64 word"
  allocatedTupleCount :: "64 word"

definition visibleTupleCount :: "Table \<Rightarrow> 64 word" where
  "visibleTupleCount t = activeTupleCount t - pendingDeleteTupleCount t"

definition columnCount :: "Table \<Rightarrow> int" where
  "columnCount t = int (length (m_tempTuple t))"

definition setNValue :: "nat \<Rightarrow> NValue \<Rightarrow> NValue list \<Rightarrow> NValue list" where
  "setNValue idx v tuple = tuple[idx := v]"

definition insertTuple :: "Table \<Rightarrow> NValue list \<Rightarrow> Table" where
  "insertTuple t tuple =
     t\<lparr>m_tuples := m_tuples t @ [tuple], activeTupleCount := activeTupleCount t + 1\<rparr>"

definition newTempTable :: "TupleSchema \<Rightarrow> Table" where
  "newTempTable schema =
     \<lparr>isPersistentTable = False, tableName = ''temp'',
      m_tempTuple = replicate (columnCount_schema schema) NullValue,
      m_tuples = [], activeTupleCount = 0, pendingDeleteTupleCount = 0,
      allocatedTupleCount = 0\<rparr>"

section \<open>The table-count executor\<close>

text \<open>
  The executor works on plan nodes and on tables, which it reaches through pointers: the
  state holds both stores, and \<open>nextTable\<close> is the address the next new table gets.
\<close>

record EngineState =
  planNodes :: heap
  tables :: "addr \<Rightarrow> Table"
  nextTable :: addr

type_synonym TempTableLimits = int

text \<open>
  Modelled from the spec: \<^verbatim>\<open>setTempOutputTable\<close> is a method of the executor base class, which
  is not part of the sources at hand. Init has to "allocate this operator's output table (a
  freshly created temporary table sized per the resolved output schema)"; the layout is the
  one of \<open>generateTupleSchema\<close> with nulls allowed, and the new table becomes the output table
  of the bound plan node.
\<close>

definition setTempOutputTable ::
  "EngineState \<Rightarrow> addr \<Rightarrow> TempTableLimits option \<Rightarrow> (error + EngineState) option" where
  "setTempOutputTable st abstractNode limits =
     (case generateTupleSchema (planNodes st) abstractNode True of
        None \<Rightarrow> None
      | Some (Inl e) \<Rightarrow> Some (Inl e)
      | Some (Inr schema) \<Rightarrow>
          (let t = nextTable st
           in Some (Inr (st\<lparr>planNodes := (planNodes st)(abstractNode :=
                               (planNodes st abstractNode)\<lparr>m_outputTable := Some t\<rparr>),
                            tables := (tables st)(t := newTempTable schema),
                            nextTable := Suc t\<rparr>))))"

text \<open>
  Both phases of the executor return their outcome together with the state they leave
  behind: \<open>Inr b\<close> is the returned \<^verbatim>\<open>bool\<close>, \<open>Inl e\<close> an assertion failure or an exception, and
  the state beside it is the state at that moment, so that what a failing run has or has
  not written can be read off.

  \<^verbatim>\<open>TableCountExecutor::p_init\<close>: three assertions, then the output table. Each assertion
  that fails ends the run with \<open>AssertionFailure\<close>; \<^verbatim>\<open>getOutputSchema\<close> may itself fail or not
  return (\<open>None\<close>). The residual predicate of the node is not read here.
\<close>

definition p_init ::
  "EngineState \<Rightarrow> addr option \<Rightarrow> TempTableLimits option \<Rightarrow>
     ((error + bool) \<times> EngineState) option" where
  "p_init st abstract_node limits =
     (case abstract_node of
        None \<Rightarrow> Some (Inl AssertionFailure, st)
      | Some a \<Rightarrow>
          (case asTableCountPlanNode (planNodes st a) of
             None \<Rightarrow> Some (Inl AssertionFailure, st)
           | Some node \<Rightarrow>
               (case getTargetTable node of
                  None \<Rightarrow> Some (Inl AssertionFailure, st)
                | Some target \<Rightarrow>
                    (case getOutputSchema (planNodes st) a of
                       None \<Rightarrow> None
                     | Some (Inl e) \<Rightarrow> Some (Inl e, st)
                     | Some (Inr outputSchema) \<Rightarrow>
                         if length outputSchema \<noteq> 1 then Some (Inl AssertionFailure, st)
                         else (case setTempOutputTable st a limits of
                                 None \<Rightarrow> None
                               | Some (Inl e) \<Rightarrow> Some (Inl e, st)
                               | Some (Inr st') \<Rightarrow> Some (Inr True, st'))))))"

text \<open>
  \<^verbatim>\<open>TableCountExecutor::p_execute\<close>, on the plan node \<open>m_abstractNode\<close> the executor is bound to.
  In source order: the node is a table-count node, it has an output table, that table has
  one column (assertions); the target must be a persistent table, otherwise the structured
  exception is thrown (a NULL target casts to NULL as well); the node has no predicate
  (assertion); then the visible tuple count of the target goes into column 0 of the output
  table's scratch tuple, and the scratch tuple is inserted into the output table. The count
  is read before the output table is written, which matters only if both are one table.
\<close>

definition p_execute ::
  "EngineState \<Rightarrow> addr option \<Rightarrow> NValue list \<Rightarrow> (error + bool) \<times> EngineState" where
  "p_execute st m_abstractNode params =
     (case m_abstractNode of
        None \<Rightarrow> (Inl AssertionFailure, st)
      | Some a \<Rightarrow>
          (case asTableCountPlanNode (planNodes st a) of
             None \<Rightarrow> (Inl AssertionFailure, st)
           | Some node \<Rightarrow>
               (case m_outputTable (planNodes st a) of
                  None \<Rightarrow> (Inl AssertionFailure, st)
                | Some output_table \<Rightarrow>
                    if columnCount (tables st output_table) \<noteq> 1 then (Inl AssertionFailure, st)
                    else (case (case getTargetTable node of
                                  None \<Rightarrow> None
                                | Some t \<Rightarrow> if isPersistentTable (tables st t) then Some t else None) of
                            None \<Rightarrow>
                              (Inl (SerializableEEException VOLT_EE_EXCEPTION_TYPE_EEEXCEPTION
                                      ''May not iterate a streamed table.''), st)
                          | Some target_table \<Rightarrow>
                              if getPredicate node \<noteq> None then (Inl AssertionFailure, st)
                              else (let tmptup = setNValue 0
                                          (getBigIntValue (visibleTupleCount (tables st target_table)))
                                          (m_tempTuple (tables st output_table));
                                        tables1 = (tables st)(output_table :=
                                          (tables st output_table)\<lparr>m_tempTuple := tmptup\<rparr>);
                                        tables2 = tables1(output_table :=
                                          insertTuple (tables1 output_table) tmptup)
                                    in (Inr True, st\<lparr>tables := tables2\<rparr>))))))"

section \<open>Deserialization of plan nodes\<close>

text \<open>
  Modelled from the spec: the class \<^verbatim>\<open>PlannerDomValue\<close> is not part of the sources at hand; only
  its "document-access contract" is used. A document is a tree of key/value objects, arrays,
  strings and integers. \<^verbatim>\<open>valueForKey\<close> on a key that is missing, and a read of a value as
  a string, an integer or an array that it is not, is a "malformed or missing required field"
  and fails; \<^verbatim>\<open>hasKey\<close> only tests. A loop \<^verbatim>\<open>for (i = 0; i < a.arrayLen(); i++) ... a.valueAtIndex(i)\<close>
  visits the entries of the array in order, so it is a recursion over the list of entries.
\<close>

datatype PlannerDomValue =
    DomNull
  | DomInt int
  | DomStr string
  | DomArray "PlannerDomValue list"
  | DomObject "(string \<times> PlannerDomValue) list"

definition DeserializationFailure :: error where
  "DeserializationFailure =
     SerializableEEException VOLT_EE_EXCEPTION_TYPE_EEEXCEPTION ''PlannerDomValue''"

definition hasKey :: "PlannerDomValue \<Rightarrow> string \<Rightarrow> bool" where
  "hasKey obj key = (case obj of DomObject members \<Rightarrow> map_of members key \<noteq> None | _ \<Rightarrow> False)"

definition valueForKey :: "PlannerDomValue \<Rightarrow> string \<Rightarrow> error + PlannerDomValue" where
  "valueForKey obj key =
     (case obj of
        DomObject members \<Rightarrow>
          (case map_of members key of
             None \<Rightarrow> Inl DeserializationFailure
           | Some v \<Rightarrow> Inr v)
      | _ \<Rightarrow> Inl DeserializationFailure)"

definition asStr :: "PlannerDomValue \<Rightarrow> error + string" where
  "asStr v = (case v of DomStr s \<Rightarrow> Inr s | _ \<Rightarrow> Inl DeserializationFailure)"

definition asInt :: "PlannerDomValue \<Rightarrow> error + int" where
  "asInt v = (case v of DomInt i \<Rightarrow> Inr i | _ \<Rightarrow> Inl DeserializationFailure)"

definition asArray :: "PlannerDomValue \<Rightarrow> error + PlannerDomValue list" where
  "asArray v = (case v of DomArray vs \<Rightarrow> Inr vs | _ \<Rightarrow> Inl DeserializationFailure)"

text \<open>
  Sequencing of steps that may fail: the first failure ends the run, as a C++ exception
  does. \<open>mapE\<close> is a loop over a list whose body may fail.
\<close>

definition bindE :: "error + 'a \<Rightarrow> ('a \<Rightarrow> error + 'b) \<Rightarrow> error + 'b" where
  "bindE m f = (case m of Inl e \<Rightarrow> Inl e | Inr x \<Rightarrow> f x)"

fun mapE :: "('a \<Rightarrow> error + 'b) \<Rightarrow> 'a list \<Rightarrow> error + 'b list" where
  "mapE f [] = Inr []"
| "mapE f (x # xs) =
     (case f x of
        Inl e \<Rightarrow> Inl e
      | Inr y \<Rightarrow> (case mapE f xs of Inl e \<Rightarrow> Inl e | Inr ys \<Rightarrow> Inr (y # ys)))"

text \<open>
  What \<^verbatim>\<open>fromJSONObject\<close> calls and the sources at hand do not contain is a parameter:
  \<^verbatim>\<open>stringToPlanNode\<close>, the factory \<^verbatim>\<open>plannodeutil::getEmptyPlanNode\<close>, the constructor of
  \<^verbatim>\<open>SchemaColumn\<close> from a document, and the virtual \<^verbatim>\<open>loadFromJSONObject\<close> of the concrete
  class, which sees the node and returns it with the fields of that class loaded.
\<close>

record Collaborators =
  stringToPlanNode :: "string \<Rightarrow> PlanNodeType"
  getEmptyPlanNode :: "PlanNodeType \<Rightarrow> error + AbstractPlanNode"
  newSchemaColumn :: "PlannerDomValue \<Rightarrow> error + SchemaColumn"
  loadFromJSONObject :: "PlannerDomValue \<Rightarrow> AbstractPlanNode \<Rightarrow> error + AbstractPlanNode"

text \<open>
  New nodes come from \<^verbatim>\<open>new\<close>: the pool is the store together with the next unused address.
\<close>

record PlanNodePool =
  nodes :: heap
  nextNode :: addr

text \<open>
  \<^verbatim>\<open>fromJSONObject\<close> in three parts. The first (lines 340 to 354) reads the type, makes the
  empty node, sets its id and fetches the array of inline node documents. In between, every
  inline document is built by a recursive call and attached with \<open>addInlinePlanNode\<close>.
\<close>

definition fromJSONObject_begin ::
  "Collaborators \<Rightarrow> PlannerDomValue \<Rightarrow> error + AbstractPlanNode \<times> PlannerDomValue list" where
  "fromJSONObject_begin c obj =
     bindE (valueForKey obj ''PLAN_NODE_TYPE'') (\<lambda>typeValue.
     bindE (asStr typeValue) (\<lambda>typeString.
     bindE (getEmptyPlanNode c (stringToPlanNode c typeString)) (\<lambda>node.
     bindE (valueForKey obj ''ID'') (\<lambda>idValue.
     bindE (asInt idValue) (\<lambda>plannode_id.
     bindE (valueForKey obj ''INLINE_NODES'') (\<lambda>inlineNodesValue.
     bindE (asArray inlineNodesValue) (\<lambda>inlineNodeObjs.
     Inr (node\<lparr>m_planNodeId := plannode_id\<rparr>, inlineNodeObjs))))))))"

text \<open>
  Lines 377 to 401 on the node at address \<open>node\<close>: the three ways in which
  \<open>m_validOutputColumnCount\<close> is set. The columns are pushed onto the node's vector and the
  count is the size of the vector afterwards; \<^verbatim>\<open>arrayLen\<close> is an \<^verbatim>\<open>int\<close>, so the cast of the
  size to \<^verbatim>\<open>int\<close> does not overflow.
\<close>

definition fromJSONObject_outputSchema ::
  "Collaborators \<Rightarrow> PlannerDomValue \<Rightarrow> heap \<Rightarrow> addr \<Rightarrow> error + heap" where
  "fromJSONObject_outputSchema c obj h node =
     (if hasKey obj ''OUTPUT_SCHEMA''
      then bindE (valueForKey obj ''OUTPUT_SCHEMA'') (\<lambda>outputSchemaArray.
           bindE (asArray outputSchemaArray) (\<lambda>outputColumnValues.
           bindE (mapE (newSchemaColumn c) outputColumnValues) (\<lambda>outputColumns.
           (let outputSchema = m_outputSchema (h node) @ outputColumns
            in Inr (h(node := (h node)\<lparr>m_outputSchema := outputSchema,
                       m_validOutputColumnCount := int (length outputSchema)\<rparr>))))))
      else if getInlinePlanNode h node PLAN_NODE_TYPE_PROJECTION \<noteq> None
      then Inr (h(node := (h node)\<lparr>m_validOutputColumnCount :=
                   SCHEMA_UNDEFINED_SO_GET_FROM_INLINE_PROJECTION\<rparr>))
      else Inr (h(node := (h node)\<lparr>m_validOutputColumnCount :=
                   SCHEMA_UNDEFINED_SO_GET_FROM_CHILD\<rparr>)))"

text \<open>
  Lines 365 to 403: parent ids, child ids, the output schema and the loader of the concrete
  class, in this order.
\<close>

definition fromJSONObject_finish ::
  "Collaborators \<Rightarrow> PlannerDomValue \<Rightarrow> heap \<Rightarrow> addr \<Rightarrow> error + heap" where
  "fromJSONObject_finish c obj h node =
     bindE (valueForKey obj ''PARENT_IDS'') (\<lambda>parentIdsArray.
     bindE (asArray parentIdsArray) (\<lambda>parentIdValues.
     bindE (mapE asInt parentIdValues) (\<lambda>parentNodeIds.
     bindE (valueForKey obj ''CHILDREN_IDS'') (\<lambda>childNodeIdsArray.
     bindE (asArray childNodeIdsArray) (\<lambda>childIdValues.
     bindE (mapE asInt childIdValues) (\<lambda>childNodeIds.
     (let h1 = h(node := (h node)\<lparr>m_parentIds := m_parentIds (h node) @ parentNodeIds,
                                   m_childIds := m_childIds (h node) @ childNodeIds\<rparr>)
      in bindE (fromJSONObject_outputSchema c obj h1 node) (\<lambda>h2.
         bindE (loadFromJSONObject c obj (h2 node)) (\<lambda>loaded.
         Inr (h2(node := loaded)))))))))))"

text \<open>
  The inline documents are part of the document, hence smaller: the recursion terminates.
\<close>

lemma size_map_of:
  "map_of members key = Some v \<Longrightarrow> size v < Suc (size_list (size_prod (\<lambda>_. 0) size) members)"
  by (induction members) (auto split: if_splits)

lemma fromJSONObject_begin_size:
  assumes "fromJSONObject_begin c obj = Inr (node, inlineNodeObjs)"
  shows "size_list size inlineNodeObjs < size obj"
proof -
  from assms obtain v where v: "valueForKey obj ''INLINE_NODES'' = Inr v" "asArray v = Inr inlineNodeObjs"
    by (auto simp: fromJSONObject_begin_def bindE_def split: sum.splits)
  from v(2) have arr: "v = DomArray inlineNodeObjs"
    by (auto simp: asArray_def split: PlannerDomValue.splits)
  from v(1) obtain members where "obj = DomObject members" "map_of members ''INLINE_NODES'' = Some v"
    by (auto simp: valueForKey_def split: PlannerDomValue.splits option.splits)
  with size_map_of [of members "''INLINE_NODES''" v] arr show ?thesis by simp
qed

function fromJSONObject ::
    "Collaborators \<Rightarrow> PlannerDomValue \<Rightarrow> PlanNodePool \<Rightarrow> error + addr \<times> PlanNodePool"
  and fromJSONObject_inlineNodes ::
    "Collaborators \<Rightarrow> addr \<Rightarrow> PlannerDomValue list \<Rightarrow> PlanNodePool \<Rightarrow> error + PlanNodePool"
where
  "fromJSONObject c obj pool =
     (case fromJSONObject_begin c obj of
        Inl e \<Rightarrow> Inl e
      | Inr (node0, inlineNodeObjs) \<Rightarrow>
          (case fromJSONObject_inlineNodes c (nextNode pool) inlineNodeObjs
                  (pool\<lparr>nodes := (nodes pool)(nextNode pool := node0),
                        nextNode := Suc (nextNode pool)\<rparr>) of
             Inl e \<Rightarrow> Inl e
           | Inr pool1 \<Rightarrow>
               (case fromJSONObject_finish c obj (nodes pool1) (nextNode pool) of
                  Inl e \<Rightarrow> Inl e
                | Inr h \<Rightarrow> Inr (nextNode pool, pool1\<lparr>nodes := h\<rparr>))))"
| "fromJSONObject_inlineNodes c node [] pool = Inr pool"
| "fromJSONObject_inlineNodes c node (inlineNodeObj # rest) pool =
     (case fromJSONObject c inlineNodeObj pool of
        Inl e \<Rightarrow> Inl e
      | Inr (newNode, pool1) \<Rightarrow>
          fromJSONObject_inlineNodes c node rest
            (pool1\<lparr>nodes := addInlinePlanNode (nodes pool1) node newNode\<rparr>))"
  by pat_completeness auto
termination
  by (relation "measure (\<lambda>x. case x of
                   Inl (c, obj, pool) \<Rightarrow> size obj
                 | Inr (c, node, objs, pool) \<Rightarrow> size_list size objs)")
     (auto dest: fromJSONObject_begin_size)

declare fromJSONObject.simps [simp del]

section \<open>Concrete plans\<close>

text \<open>
  The constructor \<^verbatim>\<open>AbstractPlanNode::AbstractPlanNode()\<close> sets the id to \<open>-1\<close>, clears the
  output table pointer and the inline flag, and leaves the containers empty. It does not
  initialise \<open>m_validOutputColumnCount\<close>: the last argument is the indeterminate content of
  that member. The first two arguments are what the concrete class fixes.
\<close>

definition AbstractPlanNode_new ::
  "PlanNodeType \<Rightarrow> TableCountPlanNode option \<Rightarrow> int \<Rightarrow> AbstractPlanNode" where
  "AbstractPlanNode_new type tc indeterminate =
     \<lparr>getPlanNodeType = type, asTableCountPlanNode = tc, m_planNodeId = - 1,
      m_children = [], m_parents = [], m_childIds = [], m_parentIds = [],
      m_inlineNodes = Map.empty, m_isInline = False, m_outputSchema = [],
      m_validOutputColumnCount = indeterminate, m_outputTable = None, m_inputTables = []\<rparr>"

definition col_A :: SchemaColumn where
  "col_A = \<lparr>getExpression = \<lparr>getValueType = VALUE_TYPE_BIGINT, getValueSize = 8\<rparr>,
            getColumnName = ''A''\<rparr>"

definition col_B :: SchemaColumn where
  "col_B = \<lparr>getExpression = \<lparr>getValueType = VALUE_TYPE_VARCHAR, getValueSize = 16\<rparr>,
            getColumnName = ''B''\<rparr>"

text \<open>
  A small plan. Node 10 (a limit) and node 11 (a send) take their schema from the first
  child; node 12 (a scan) takes it from its inline projection, node 13, which defines the
  columns A and B. Node 14 is a table count over table 30 that defines one column. Node 15 is
  malformed: it is its own first child. Node 16 delegates to a first child and has none.
  Node 17 delegates to node 16. Node 18 claims an inline projection and has none; node 19 has
  one, node 16, which does not define a schema. Node 20 is a second projection, not inline
  anywhere. Nodes 21, 22 and 23 are further table counts: over the empty table 33, over the
  streamed table 32, and over table 30 but with a residual predicate. Node 24 is a table
  count over table 30 whose own schema has two columns. Nodes 25, 26 and 27 form a chain of
  first children in which every node delegates to its first child and the last has none.
  Node 28 is a limit that is meant to be inline and has no schema of its own.
\<close>

definition example_plan :: heap where
  "example_plan =
     (\<lambda>_. AbstractPlanNode_new PLAN_NODE_TYPE_INVALID None 0)
     (10 := (AbstractPlanNode_new PLAN_NODE_TYPE_LIMIT None SCHEMA_UNDEFINED_SO_GET_FROM_CHILD)
             \<lparr>m_planNodeId := 100, m_children := [Some 11], m_childIds := [101]\<rparr>,
      11 := (AbstractPlanNode_new PLAN_NODE_TYPE_SEND None SCHEMA_UNDEFINED_SO_GET_FROM_CHILD)
             \<lparr>m_planNodeId := 101, m_children := [Some 12], m_parents := [Some 10],
              m_childIds := [102], m_parentIds := [100]\<rparr>,
      12 := (AbstractPlanNode_new PLAN_NODE_TYPE_SEQSCAN None
              SCHEMA_UNDEFINED_SO_GET_FROM_INLINE_PROJECTION)
             \<lparr>m_planNodeId := 102, m_parents := [Some 11], m_parentIds := [101],
              m_inlineNodes := [PLAN_NODE_TYPE_PROJECTION \<mapsto> 13]\<rparr>,
      13 := (AbstractPlanNode_new PLAN_NODE_TYPE_PROJECTION None 2)
             \<lparr>m_planNodeId := 103, m_isInline := True, m_outputSchema := [col_A, col_B]\<rparr>,
      14 := (AbstractPlanNode_new PLAN_NODE_TYPE_TABLECOUNT
              (Some \<lparr>getTargetTable = Some 30, getPredicate = None\<rparr>) 1)
             \<lparr>m_planNodeId := 104, m_outputSchema := [col_A]\<rparr>,
      15 := (AbstractPlanNode_new PLAN_NODE_TYPE_LIMIT None SCHEMA_UNDEFINED_SO_GET_FROM_CHILD)
             \<lparr>m_planNodeId := 105, m_children := [Some 15], m_parents := [Some 15]\<rparr>,
      16 := (AbstractPlanNode_new PLAN_NODE_TYPE_LIMIT None SCHEMA_UNDEFINED_SO_GET_FROM_CHILD)
             \<lparr>m_planNodeId := 106, m_parents := [Some 17]\<rparr>,
      17 := (AbstractPlanNode_new PLAN_NODE_TYPE_SEND None SCHEMA_UNDEFINED_SO_GET_FROM_CHILD)
             \<lparr>m_planNodeId := 107, m_children := [Some 16]\<rparr>,
      18 := (AbstractPlanNode_new PLAN_NODE_TYPE_SEQSCAN None
              SCHEMA_UNDEFINED_SO_GET_FROM_INLINE_PROJECTION)
             \<lparr>m_planNodeId := 108\<rparr>,
      19 := (AbstractPlanNode_new PLAN_NODE_TYPE_SEQSCAN None
              SCHEMA_UNDEFINED_SO_GET_FROM_INLINE_PROJECTION)
             \<lparr>m_planNodeId := 109, m_inlineNodes := [PLAN_NODE_TYPE_PROJECTION \<mapsto> 16]\<rparr>,
      20 := (AbstractPlanNode_new PLAN_NODE_TYPE_PROJECTION None 1)
             \<lparr>m_planNodeId := 110, m_outputSchema := [col_A]\<rparr>,
      21 := (AbstractPlanNode_new PLAN_NODE_TYPE_TABLECOUNT
              (Some \<lparr>getTargetTable = Some 33, getPredicate = None\<rparr>) 1)
             \<lparr>m_planNodeId := 111, m_outputSchema := [col_A]\<rparr>,
      22 := (AbstractPlanNode_new PLAN_NODE_TYPE_TABLECOUNT
              (Some \<lparr>getTargetTable = Some 32, getPredicate = None\<rparr>) 1)
             \<lparr>m_planNodeId := 112, m_outputSchema := [col_A]\<rparr>,
      23 := (AbstractPlanNode_new PLAN_NODE_TYPE_TABLECOUNT
              (Some \<lparr>getTargetTable = Some 30,
                     getPredicate = Some \<lparr>getValueType = VALUE_TYPE_INTEGER, getValueSize = 4\<rparr>\<rparr>) 1)
             \<lparr>m_planNodeId := 113, m_outputSchema := [col_A]\<rparr>,
      24 := (AbstractPlanNode_new PLAN_NODE_TYPE_TABLECOUNT
              (Some \<lparr>getTargetTable = Some 30, getPredicate = None\<rparr>) 2)
             \<lparr>m_planNodeId := 114, m_outputSchema := [col_A, col_B]\<rparr>,
      25 := (AbstractPlanNode_new PLAN_NODE_TYPE_SEND None SCHEMA_UNDEFINED_SO_GET_FROM_CHILD)
             \<lparr>m_planNodeId := 115, m_children := [Some 26]\<rparr>,
      26 := (AbstractPlanNode_new PLAN_NODE_TYPE_LIMIT None SCHEMA_UNDEFINED_SO_GET_FROM_CHILD)
             \<lparr>m_planNodeId := 116, m_children := [Some 27]\<rparr>,
      27 := (AbstractPlanNode_new PLAN_NODE_TYPE_LIMIT None SCHEMA_UNDEFINED_SO_GET_FROM_CHILD)
             \<lparr>m_planNodeId := 117\<rparr>,
      28 := (AbstractPlanNode_new PLAN_NODE_TYPE_LIMIT None SCHEMA_UNDEFINED_SO_GET_FROM_CHILD)
             \<lparr>m_planNodeId := 118, m_isInline := True\<rparr>)"



text \<open>
  Tables for the concrete plan. Table 30 is persistent, with 1000 active rows of which 3 are
  deleted and not yet reclaimed; table 32 is streamed; table 33 is persistent and empty;
  every other table is an empty temporary table with one column.
\<close>

definition example_tables :: "addr \<Rightarrow> Table" where
  "example_tables =
     (\<lambda>_. newTempTable (createTupleSchema [VALUE_TYPE_BIGINT] [8] [True] True))
     (30 := \<lparr>isPersistentTable = True, tableName = ''T'', m_tempTuple = [NullValue, NullValue],
             m_tuples = [], activeTupleCount = 1000, pendingDeleteTupleCount = 3,
             allocatedTupleCount = 1024\<rparr>,
      32 := \<lparr>isPersistentTable = False, tableName = ''S'', m_tempTuple = [NullValue],
             m_tuples = [], activeTupleCount = 0, pendingDeleteTupleCount = 0,
             allocatedTupleCount = 0\<rparr>,
      33 := \<lparr>isPersistentTable = True, tableName = ''E'', m_tempTuple = [NullValue],
             m_tuples = [], activeTupleCount = 0, pendingDeleteTupleCount = 0,
             allocatedTupleCount = 0\<rparr>)"

text \<open>
  \<open>example_fresh\<close> is the state before any init: no plan node has an output table. In
  \<open>example_engine\<close> the table counts 14, 21, 22 and 23 have the temporary tables 41 to 44 as
  their output tables.
\<close>

definition example_fresh :: EngineState where
  "example_fresh = \<lparr>planNodes = example_plan, tables = example_tables, nextTable = 40\<rparr>"

definition example_engine :: EngineState where
  "example_engine =
     \<lparr>planNodes = example_plan
        (14 := (example_plan 14)\<lparr>m_outputTable := Some 41\<rparr>,
         21 := (example_plan 21)\<lparr>m_outputTable := Some 42\<rparr>,
         22 := (example_plan 22)\<lparr>m_outputTable := Some 43\<rparr>,
         23 := (example_plan 23)\<lparr>m_outputTable := Some 44\<rparr>),
      tables = example_tables, nextTable = 45\<rparr>"

text \<open>
  Documents for the deserializer, with collaborators that know the type names, make empty
  nodes with the constructor (the tag member holds an arbitrary 12345), read a column from
  its name, and load nothing. \<open>doc_projection\<close> supplies an output schema of two columns;
  \<open>doc_scan\<close> has no output schema and \<open>doc_projection\<close> as its inline node; \<open>doc_limit\<close> has
  neither.
\<close>

definition example_collaborators :: Collaborators where
  "example_collaborators =
     \<lparr>stringToPlanNode = (\<lambda>s.
          if s = ''SEQSCAN'' then PLAN_NODE_TYPE_SEQSCAN
          else if s = ''PROJECTION'' then PLAN_NODE_TYPE_PROJECTION
          else if s = ''LIMIT'' then PLAN_NODE_TYPE_LIMIT
          else if s = ''TABLECOUNT'' then PLAN_NODE_TYPE_TABLECOUNT
          else if s = ''SEND'' then PLAN_NODE_TYPE_SEND
          else PLAN_NODE_TYPE_INVALID),
      getEmptyPlanNode = (\<lambda>t.
          if t = PLAN_NODE_TYPE_INVALID then Inl DeserializationFailure
          else Inr (AbstractPlanNode_new t
                 (if t = PLAN_NODE_TYPE_TABLECOUNT
                  then Some \<lparr>getTargetTable = None, getPredicate = None\<rparr> else None) 12345)),
      newSchemaColumn = (\<lambda>d.
          bindE (valueForKey d ''COLUMN_NAME'') (\<lambda>v.
          bindE (asStr v) (\<lambda>name.
          Inr \<lparr>getExpression = \<lparr>getValueType = VALUE_TYPE_BIGINT, getValueSize = 8\<rparr>,
               getColumnName = name\<rparr>))),
      loadFromJSONObject = (\<lambda>d n. Inr n)\<rparr>"

definition doc_projection :: PlannerDomValue where
  "doc_projection = DomObject
     [(''PLAN_NODE_TYPE'', DomStr ''PROJECTION''), (''ID'', DomInt 3),
      (''INLINE_NODES'', DomArray []), (''PARENT_IDS'', DomArray []),
      (''CHILDREN_IDS'', DomArray []),
      (''OUTPUT_SCHEMA'', DomArray [DomObject [(''COLUMN_NAME'', DomStr ''A'')],
                                    DomObject [(''COLUMN_NAME'', DomStr ''B'')]])]"

definition doc_scan :: PlannerDomValue where
  "doc_scan = DomObject
     [(''PLAN_NODE_TYPE'', DomStr ''SEQSCAN''), (''ID'', DomInt 2),
      (''INLINE_NODES'', DomArray [doc_projection]), (''PARENT_IDS'', DomArray [DomInt 1]),
      (''CHILDREN_IDS'', DomArray [])]"

definition doc_limit :: PlannerDomValue where
  "doc_limit = DomObject
     [(''PLAN_NODE_TYPE'', DomStr ''LIMIT''), (''ID'', DomInt 1),
      (''INLINE_NODES'', DomArray []), (''PARENT_IDS'', DomArray []),
      (''CHILDREN_IDS'', DomArray [DomInt 2])]"

definition example_pool :: PlanNodePool where
  "example_pool = \<lparr>nodes = (\<lambda>_. AbstractPlanNode_new PLAN_NODE_TYPE_INVALID None 0), nextNode = 50\<rparr>"

section \<open>Facts about the tags and the concrete plan\<close>

lemma tag_facts:
  "SCHEMA_UNDEFINED_SO_GET_FROM_INLINE_PROJECTION < 0"
  "SCHEMA_UNDEFINED_SO_GET_FROM_CHILD < 0"
  "SCHEMA_UNDEFINED_SO_GET_FROM_INLINE_PROJECTION \<noteq> SCHEMA_UNDEFINED_SO_GET_FROM_CHILD"
  by (simp_all add: SCHEMA_UNDEFINED_SO_GET_FROM_INLINE_PROJECTION_def SCHEMA_UNDEFINED_SO_GET_FROM_CHILD_def)

lemma example_tags:
  "m_validOutputColumnCount (example_plan 10) = SCHEMA_UNDEFINED_SO_GET_FROM_CHILD"
  "m_validOutputColumnCount (example_plan 11) = SCHEMA_UNDEFINED_SO_GET_FROM_CHILD"
  "m_validOutputColumnCount (example_plan 12) = SCHEMA_UNDEFINED_SO_GET_FROM_INLINE_PROJECTION"
  "m_validOutputColumnCount (example_plan 13) = 2"
  "m_validOutputColumnCount (example_plan 14) = 1"
  "m_validOutputColumnCount (example_plan 15) = SCHEMA_UNDEFINED_SO_GET_FROM_CHILD"
  "m_validOutputColumnCount (example_plan 16) = SCHEMA_UNDEFINED_SO_GET_FROM_CHILD"
  "m_validOutputColumnCount (example_plan 17) = SCHEMA_UNDEFINED_SO_GET_FROM_CHILD"
  "m_validOutputColumnCount (example_plan 18) = SCHEMA_UNDEFINED_SO_GET_FROM_INLINE_PROJECTION"
  "m_validOutputColumnCount (example_plan 19) = SCHEMA_UNDEFINED_SO_GET_FROM_INLINE_PROJECTION"
  "m_validOutputColumnCount (example_plan 25) = SCHEMA_UNDEFINED_SO_GET_FROM_CHILD"
  "m_validOutputColumnCount (example_plan 26) = SCHEMA_UNDEFINED_SO_GET_FROM_CHILD"
  "m_validOutputColumnCount (example_plan 27) = SCHEMA_UNDEFINED_SO_GET_FROM_CHILD"
  by (simp_all add: example_plan_def AbstractPlanNode_new_def)

lemma example_children:
  "m_children (example_plan 10) = [Some 11]"
  "m_children (example_plan 11) = [Some 12]"
  "m_children (example_plan 12) = []"
  "m_children (example_plan 15) = [Some 15]"
  "m_children (example_plan 16) = []"
  "m_children (example_plan 17) = [Some 16]"
  "m_children (example_plan 18) = []"
  "m_children (example_plan 19) = []"
  "m_children (example_plan 25) = [Some 26]"
  "m_children (example_plan 26) = [Some 27]"
  "m_children (example_plan 27) = []"
  by (simp_all add: example_plan_def AbstractPlanNode_new_def)

lemma example_inline:
  "getInlinePlanNode example_plan 12 PLAN_NODE_TYPE_PROJECTION = Some 13"
  "getInlinePlanNode example_plan 18 PLAN_NODE_TYPE_PROJECTION = None"
  "getInlinePlanNode example_plan 19 PLAN_NODE_TYPE_PROJECTION = Some 16"
  "getInlinePlanNode example_plan 26 PLAN_NODE_TYPE_PROJECTION = None"
  by (simp_all add: getInlinePlanNode_def example_plan_def AbstractPlanNode_new_def)

lemma example_schema:
  "m_outputSchema (example_plan 13) = [col_A, col_B]"
  "m_outputSchema (example_plan 14) = [col_A]"
  by (simp_all add: example_plan_def AbstractPlanNode_new_def)

section \<open>The diagnostic text: when it is produced\<close>

lemma debug_children_crash:
  assumes "debug_children h spacer a ctr = Some (Inl e)"
  shows "e = NullPointerDereference"
proof -
  have "\<forall>e. r = Inl e \<longrightarrow> e = NullPointerDereference"
    if "debug_children h spacer a ctr = Some r" for r
  proof (rule debug_children.raw_induct
      [where P = "\<lambda>h spacer a ctr r. \<forall>e. r = Inl e \<longrightarrow> e = NullPointerDereference", OF _ that])
    fix walk :: "heap \<Rightarrow> string \<Rightarrow> addr \<Rightarrow> nat \<Rightarrow> (error + DebugItem list) option"
    fix h spacer this ctr r
    assume IH: "\<And>h spacer a ctr y. walk h spacer a ctr = Some y \<Longrightarrow>
                  \<forall>e. y = Inl e \<longrightarrow> e = NullPointerDereference"
    assume body: "(if ctr < length (m_children (h this))
      then (case m_children (h this) ! ctr of
              None \<Rightarrow> Some (Inl NullPointerDereference)
            | Some child \<Rightarrow>
                Option.bind (walk h (spacer @ ''  '') child 0) (\<lambda>below.
                  case below of
                    Inl e \<Rightarrow> Some (Inl e)
                  | Inr child_text \<Rightarrow>
                      Option.bind (walk h spacer this (Suc ctr)) (\<lambda>others.
                        case others of
                          Inl e \<Rightarrow> Some (Inl e)
                        | Inr others_text \<Rightarrow>
                            Some (Inr ([DbgText (spacer @ ''  ''),
                                        DbgTypeValue (getPlanNodeType (h child)), DbgText endl] @
                                       debug_head h child (spacer @ ''  '') @ child_text @
                                       others_text)))))
      else Some (Inr [])) = Some r"
    have IH': "e = NullPointerDereference" if "walk h spacer a ctr = Some (Inl e)"
      for h spacer a ctr e
      using IH [OF that] by simp
    show "\<forall>e. r = Inl e \<longrightarrow> e = NullPointerDereference"
    proof (intro allI impI)
      fix e
      assume r: "r = Inl e"
      show "e = NullPointerDereference"
      proof (cases "ctr < length (m_children (h this))")
        case False
        with body r show ?thesis by simp
      next
        case True
        show ?thesis
        proof (cases "m_children (h this) ! ctr")
          case None
          with body r True show ?thesis by simp
        next
          case (Some child)
          with body True obtain below where
            below: "walk h (spacer @ ''  '') child 0 = Some below"
            by (auto simp: bind_eq_Some_conv)
          show ?thesis
          proof (cases below)
            case (Inl e')
            with body True Some below r have "e' = e" by simp
            with IH' [of h "spacer @ ''  ''" child 0 e'] below Inl show ?thesis by simp
          next
            case (Inr child_text)
            with body True Some below obtain others where
              others: "walk h spacer this (Suc ctr) = Some others"
              by (auto simp: bind_eq_Some_conv)
            show ?thesis
            proof (cases others)
              case (Inl e')
              with body True Some below Inr others r have "e' = e" by simp
              with IH' [of h spacer this "Suc ctr" e'] others Inl show ?thesis by simp
            next
              case (Inr others_text)
              with body True Some below \<open>below = Inr child_text\<close> others r show ?thesis by simp
            qed
          qed
        qed
      qed
    qed
  qed
  with assms show ?thesis by blast
qed

lemma debug_children_returns:
  assumes "plan_tree h a"
  shows "\<exists>items. debug_children h spacer a ctr = Some (Inr items)"
  using assms
proof (induction arbitrary: spacer ctr rule: plan_tree.induct)
  case (plan_tree_node a)
  show ?case
  proof (induction "length (m_children (h a)) - ctr" arbitrary: ctr)
    case 0
    then show ?case by (subst debug_children.simps) simp
  next
    case (Suc n)
    then have lt: "ctr < length (m_children (h a))" by simp
    then have mem: "m_children (h a) ! ctr \<in> set (m_children (h a))" by simp
    with plan_tree_node(1) obtain c where c: "m_children (h a) ! ctr = Some c"
      by (cases "m_children (h a) ! ctr") auto
    with mem have "Some c \<in> set (m_children (h a))" by simp
    from plan_tree_node(3) [OF this, of "spacer @ ''  ''" 0] obtain below where
      below: "debug_children h (spacer @ ''  '') c 0 = Some (Inr below)" by blast
    from Suc(2) have "n = length (m_children (h a)) - Suc ctr" by simp
    from Suc(1) [OF this] obtain others where
      others: "debug_children h spacer a (Suc ctr) = Some (Inr others)" by blast
    show ?case
      by (subst debug_children.simps) (simp add: lt c below others)
  qed
qed

lemma debug_traverse_returns:
  assumes "plan_tree h a"
  shows "\<exists>items. debug_traverse h a True = Some (Inr items)"
  using debug_children_returns [OF assms, of "[]" 0]
  by (auto simp: debug_traverse_def debug_spacer_def)

lemma throw_fatal:
  "fatal (throwFatalLogicErrorStreamed text (debug_traverse h this True)
            :: (error + SchemaColumn list) option)"
proof (cases "debug_children h [] this 0")
  case None
  then show ?thesis
    by (simp add: fatal_def throwFatalLogicErrorStreamed_def debug_traverse_def debug_spacer_def)
next
  case (Some r)
  show ?thesis
  proof (cases r)
    case (Inl e)
    with Some debug_children_crash [of h "[]" this 0 e] show ?thesis
      by (simp add: fatal_def throwFatalLogicErrorStreamed_def debug_traverse_def debug_spacer_def)
  next
    case (Inr items)
    with Some show ?thesis
      by (simp add: fatal_def throwFatalLogicErrorStreamed_def debug_traverse_def debug_spacer_def)
  qed
qed

lemma throw_on_tree:
  assumes "plan_tree h this"
  shows "\<exists>items. debug_traverse h this True = Some (Inr items) \<and>
           (throwFatalLogicErrorStreamed text (debug_traverse h this True)
              :: (error + SchemaColumn list) option) =
             Some (Inl (FatalLogicError (DbgText text # items)))"
  using debug_traverse_returns [OF assms]
  by (auto simp: throwFatalLogicErrorStreamed_def)


lemma plan_tree_leaf:
  assumes "m_children (h a) = []"
  shows "plan_tree h a"
  by (rule plan_tree_node) (simp_all add: assms)

lemma plan_tree_only_child:
  assumes "m_children (h a) = [Some c]" and "plan_tree h c"
  shows "plan_tree h a"
  by (rule plan_tree_node) (simp_all add: assms)

lemma example_trees:
  "plan_tree example_plan 12" "plan_tree example_plan 16" "plan_tree example_plan 17"
  "plan_tree example_plan 18" "plan_tree example_plan 19"
  "plan_tree example_plan 25"
proof -
  show "plan_tree example_plan 12" by (rule plan_tree_leaf) (simp add: example_children)
  show t16: "plan_tree example_plan 16" by (rule plan_tree_leaf) (simp add: example_children)
  show "plan_tree example_plan 17"
    by (rule plan_tree_only_child [OF _ t16]) (simp add: example_children)
  show "plan_tree example_plan 18" by (rule plan_tree_leaf) (simp add: example_children)
  show "plan_tree example_plan 19" by (rule plan_tree_leaf) (simp add: example_children)
  have t27: "plan_tree example_plan 27" by (rule plan_tree_leaf) (simp add: example_children)
  have t26: "plan_tree example_plan 26"
    by (rule plan_tree_only_child [OF _ t27]) (simp add: example_children)
  show "plan_tree example_plan 25"
    by (rule plan_tree_only_child [OF _ t26]) (simp add: example_children)
qed

lemma example_messages:
  "debug_traverse example_plan 18 True =
     Some (Inr [DbgText [], DbgText ''* '', DbgTypeName PLAN_NODE_TYPE_SEQSCAN, DbgText ''['',
                DbgNumber 108, DbgText '']'', DbgText endl, DbgInfo 18 ''  |''])"
  "debug_traverse example_plan 19 True =
     Some (Inr [DbgText [], DbgText ''* '', DbgTypeName PLAN_NODE_TYPE_SEQSCAN, DbgText ''['',
                DbgNumber 109, DbgText '']'', DbgText endl, DbgInfo 19 ''  |'',
                DbgText ''  |'', DbgText ''Inline Plannodes: '', DbgNumber 1, DbgText endl,
                DbgText ''  |'', DbgText ''Inline '', DbgTypeName PLAN_NODE_TYPE_LIMIT,
                DbgText ('':'' @ endl), DbgInfo 16 ''  |  ''])"
  by (simp_all add: debug_traverse_def debug_spacer_def debug_children.simps debug_head_def
        debug_def inlineNodes_in_order_def Let_def example_plan_def AbstractPlanNode_new_def)


section \<open>Schema resolution: the loop\<close>

lemma loop_hop:
  assumes "first_child_hop h a = Some c"
  shows "getOutputSchema_loop h this a = getOutputSchema_loop h this c"
  using assms tag_facts
  by (subst getOutputSchema_loop.simps)
     (auto simp: first_child_hop_def split: if_splits list.splits option.splits)

lemma loop_chain:
  assumes "first_child_chain h a b"
  shows "getOutputSchema_loop h this a = getOutputSchema_loop h this b"
  using assms by (induction rule: first_child_chain.induct) (simp_all add: loop_hop)

lemma loop_stop:
  assumes "first_child_hop h b = None"
  shows "(\<exists>cols. getOutputSchema_loop h this b = Some (Inr cols)) \<or>
         (\<exists>text. getOutputSchema_loop h this b =
                   throwFatalLogicErrorStreamed text (debug_traverse h this True))"
  using assms tag_facts
  by (subst (1 2) getOutputSchema_loop.simps)
     (auto simp: first_child_hop_def split: if_splits list.splits option.splits)

lemma plan_tree_chain:
  assumes "plan_tree h a"
  shows "\<exists>b. first_child_chain h a b \<and> first_child_hop h b = None"
  using assms
proof (induction rule: plan_tree.induct)
  case (plan_tree_node a)
  show ?case
  proof (cases "first_child_hop h a")
    case None
    then show ?thesis using chain_here by blast
  next
    case (Some c)
    then have "Some c \<in> set (m_children (h a))"
      by (auto simp: first_child_hop_def split: if_splits list.splits option.splits)
    from plan_tree_node(3) [OF this] obtain b where
      "first_child_chain h c b" "first_child_hop h b = None" by blast
    with Some show ?thesis using chain_hop [of h a c b] by blast
  qed
qed

lemma loop_at_inline_projection:
  assumes "m_validOutputColumnCount (h b) = SCHEMA_UNDEFINED_SO_GET_FROM_INLINE_PROJECTION"
  shows "getOutputSchema_loop h this b =
           (case getInlinePlanNode h b PLAN_NODE_TYPE_PROJECTION of
              None \<Rightarrow>
                throwFatalLogicErrorStreamed
                  (''Incorrect output schema source for plannode:'' @ endl)
                  (debug_traverse h this True)
            | Some p \<Rightarrow>
                if m_validOutputColumnCount (h p) \<ge> 0
                then Some (Inr (m_outputSchema (h p)))
                else throwFatalLogicErrorStreamed
                       (''Missing output schema for inline projection:'' @ endl)
                       (debug_traverse h this True))"
  using assms by (subst getOutputSchema_loop.simps) simp


lemma loop_at_no_child:
  assumes "m_validOutputColumnCount (h b) = SCHEMA_UNDEFINED_SO_GET_FROM_CHILD"
      and "m_children (h b) = []"
  shows "getOutputSchema_loop h this b =
           throwFatalLogicErrorStreamed
             (''Incorrect output schema source for plannode:'' @ endl)
             (debug_traverse h this True)"
  using assms tag_facts by (subst getOutputSchema_loop.simps) simp

lemma loop_Some_chain:
  assumes "getOutputSchema_loop h this a = Some r"
  shows "\<exists>b. first_child_chain h a b \<and> first_child_hop h b = None"
proof (rule getOutputSchema_loop.raw_induct
    [where P = "\<lambda>h this a r. \<exists>b. first_child_chain h a b \<and> first_child_hop h b = None", OF _ assms])
  fix loop :: "heap \<Rightarrow> addr \<Rightarrow> addr \<Rightarrow> (error + SchemaColumn list) option"
  fix h this parent r
  assume IH: "\<And>h this a y. loop h this a = Some y \<Longrightarrow>
                \<exists>b. first_child_chain h a b \<and> first_child_hop h b = None"
  assume body: "(if m_validOutputColumnCount (h parent) = SCHEMA_UNDEFINED_SO_GET_FROM_INLINE_PROJECTION
      then (case getInlinePlanNode h parent PLAN_NODE_TYPE_PROJECTION of
              None \<Rightarrow>
                throwFatalLogicErrorStreamed
                  (''Incorrect output schema source for plannode:'' @ endl)
                  (debug_traverse h this True)
            | Some schema_definer \<Rightarrow>
                if m_validOutputColumnCount (h schema_definer) \<ge> 0
                then Some (Inr (m_outputSchema (h schema_definer)))
                else throwFatalLogicErrorStreamed
                       (''Missing output schema for inline projection:'' @ endl)
                       (debug_traverse h this True))
      else if m_validOutputColumnCount (h parent) = SCHEMA_UNDEFINED_SO_GET_FROM_CHILD
      then (case m_children (h parent) of
              [] \<Rightarrow>
                throwFatalLogicErrorStreamed
                  (''Incorrect output schema source for plannode:'' @ endl)
                  (debug_traverse h this True)
            | child # _ \<Rightarrow>
                (case child of
                   None \<Rightarrow>
                     throwFatalLogicErrorStreamed
                       (''Incorrect output schema source for plannode:'' @ endl)
                       (debug_traverse h this True)
                 | Some schema_definer \<Rightarrow>
                     if m_validOutputColumnCount (h schema_definer) \<ge> 0
                     then Some (Inr (m_outputSchema (h schema_definer)))
                     else loop h this schema_definer))
      else throwFatalLogicErrorStreamed
             (''No valid output schema defined for plannode:'' @ endl)
             (debug_traverse h this True)) = Some r"
  show "\<exists>b. first_child_chain h parent b \<and> first_child_hop h b = None"
  proof (cases "first_child_hop h parent")
    case None
    then show ?thesis using chain_here by blast
  next
    case (Some c)
    with body tag_facts have "loop h this c = Some r"
      by (auto simp: first_child_hop_def split: if_splits list.splits option.splits)
    then obtain b where "first_child_chain h c b" "first_child_hop h b = None"
      using IH by blast
    with Some show ?thesis using chain_hop [of h parent c b] by blast
  qed
qed








lemma example_hops:
  "first_child_hop example_plan 10 = Some 11"
  "first_child_hop example_plan 11 = Some 12"
  "first_child_hop example_plan 12 = None"
  "first_child_hop example_plan 15 = Some 15"
  "first_child_hop example_plan 16 = None"
  "first_child_hop example_plan 17 = Some 16"
  "first_child_hop example_plan 25 = Some 26"
  "first_child_hop example_plan 26 = Some 27"
  "first_child_hop example_plan 27 = None"
  using tag_facts by (simp_all add: first_child_hop_def example_tags example_children)

lemma example_chains:
  "first_child_chain example_plan 10 11"
  "first_child_chain example_plan 10 12"
  "first_child_chain example_plan 17 16"
  "first_child_chain example_plan 25 26"
  "first_child_chain example_plan 25 27"
proof -
  show "first_child_chain example_plan 10 11"
    by (rule chain_hop [OF example_hops(1) chain_here])
  show "first_child_chain example_plan 10 12"
    by (rule chain_hop [OF example_hops(1) chain_hop [OF example_hops(2) chain_here]])
  show "first_child_chain example_plan 17 16"
    by (rule chain_hop [OF example_hops(6) chain_here])
  show "first_child_chain example_plan 25 26"
    by (rule chain_hop [OF example_hops(7) chain_here])
  show "first_child_chain example_plan 25 27"
    by (rule chain_hop [OF example_hops(7) chain_hop [OF example_hops(8) chain_here]])
qed

lemma getOutputSchema_at_inline_projection:
  assumes "m_validOutputColumnCount (h this) = SCHEMA_UNDEFINED_SO_GET_FROM_INLINE_PROJECTION"
  shows "getOutputSchema h this =
           (case getInlinePlanNode h this PLAN_NODE_TYPE_PROJECTION of
              None \<Rightarrow>
                throwFatalLogicErrorStreamed
                  (''Incorrect output schema source for plannode:'' @ endl)
                  (debug_traverse h this True)
            | Some p \<Rightarrow>
                if m_validOutputColumnCount (h p) \<ge> 0
                then Some (Inr (m_outputSchema (h p)))
                else throwFatalLogicErrorStreamed
                       (''Missing output schema for inline projection:'' @ endl)
                       (debug_traverse h this True))"
proof -
  from assms tag_facts have "\<not> m_validOutputColumnCount (h this) \<ge> 0" by simp
  then have "getOutputSchema h this = getOutputSchema_loop h this this"
    by (simp add: getOutputSchema_def)
  with loop_at_inline_projection [of h this this] assms show ?thesis by simp
qed

lemma example_plan_12_resolves:
  "getOutputSchema example_plan 12 = Some (Inr [col_A, col_B])"
  by (simp add: getOutputSchema_at_inline_projection example_tags example_inline example_schema)



section \<open>Facts about the executor and its concrete states\<close>

lemma example_types:
  "getPlanNodeType (example_plan 20) = PLAN_NODE_TYPE_PROJECTION"
  "m_isInline (example_plan 20) = False"
  "m_inlineNodes (example_plan 12) = [PLAN_NODE_TYPE_PROJECTION \<mapsto> 13]"
  by (simp_all add: example_plan_def AbstractPlanNode_new_def)

lemma p_execute_persistent:
  assumes node: "asTableCountPlanNode (planNodes st a) = Some node"
      and out: "m_outputTable (planNodes st a) = Some ot"
      and cols: "columnCount (tables st ot) = 1"
      and target: "getTargetTable node = Some tt"
      and pers: "isPersistentTable (tables st tt)"
      and nopred: "getPredicate node = None"
  shows "p_execute st (Some a) params =
           (Inr True,
            st\<lparr>tables := (tables st)(ot :=
                  (tables st ot)\<lparr>m_tempTuple := [BigIntValue (visibleTupleCount (tables st tt))],
                                 m_tuples := m_tuples (tables st ot) @
                                   [[BigIntValue (visibleTupleCount (tables st tt))]],
                                 activeTupleCount := activeTupleCount (tables st ot) + 1\<rparr>)\<rparr>)"
proof -
  from cols obtain v where tmp: "m_tempTuple (tables st ot) = [v]"
    by (cases "m_tempTuple (tables st ot)") (auto simp: columnCount_def)
  show ?thesis
    using assms
    by (simp add: p_execute_def Let_def setNValue_def getBigIntValue_def insertTuple_def tmp)
qed

lemma example_engine_nodes:
  "asTableCountPlanNode (planNodes example_engine 14) = Some \<lparr>getTargetTable = Some 30, getPredicate = None\<rparr>"
  "asTableCountPlanNode (planNodes example_engine 21) = Some \<lparr>getTargetTable = Some 33, getPredicate = None\<rparr>"
  "asTableCountPlanNode (planNodes example_engine 22) = Some \<lparr>getTargetTable = Some 32, getPredicate = None\<rparr>"
  "asTableCountPlanNode (planNodes example_engine 23) =
     Some \<lparr>getTargetTable = Some 30,
           getPredicate = Some \<lparr>getValueType = VALUE_TYPE_INTEGER, getValueSize = 4\<rparr>\<rparr>"
  "m_outputTable (planNodes example_engine 14) = Some 41"
  "m_outputTable (planNodes example_engine 21) = Some 42"
  "m_outputTable (planNodes example_engine 22) = Some 43"
  "m_outputTable (planNodes example_engine 23) = Some 44"
  by (simp_all add: example_engine_def example_plan_def AbstractPlanNode_new_def)

lemma example_engine_tables:
  "isPersistentTable (tables example_engine 30)"
  "activeTupleCount (tables example_engine 30) = 1000"
  "pendingDeleteTupleCount (tables example_engine 30) = 3"
  "\<not> isPersistentTable (tables example_engine 32)"
  "isPersistentTable (tables example_engine 33)"
  "activeTupleCount (tables example_engine 33) = 0"
  "pendingDeleteTupleCount (tables example_engine 33) = 0"
  "columnCount (tables example_engine 41) = 1"
  "columnCount (tables example_engine 42) = 1"
  "columnCount (tables example_engine 43) = 1"
  "columnCount (tables example_engine 44) = 1"
  "m_tuples (tables example_engine 41) = []"
  "m_tuples (tables example_engine 42) = []"
  "m_tuples (tables example_engine 43) = []"
  "m_tuples (tables example_engine 44) = []"
  by (simp_all add: example_engine_def example_tables_def newTempTable_def createTupleSchema_def
        columnCount_schema_def columnCount_def)

lemma generateTupleSchema_columns:
  assumes "getOutputSchema h a = Some (Inr cols)"
  shows "\<exists>schema. generateTupleSchema h a allowNulls = Some (Inr schema) \<and>
                  columnCount_schema schema = length cols"
proof -
  have z: "length (zipColumns (map f cols) (map g cols) (replicate (length cols) b)) = length cols"
    for f :: "SchemaColumn \<Rightarrow> ValueType" and g :: "SchemaColumn \<Rightarrow> int" and b
    by (induction cols) simp_all
  show ?thesis
    using assms by (simp add: generateTupleSchema_def Let_def createTupleSchema_def columnCount_schema_def z)
qed

lemma p_init_one_column:
  assumes node: "asTableCountPlanNode (planNodes st a) = Some node"
      and target: "getTargetTable node = Some tt"
      and schema: "getOutputSchema (planNodes st) a = Some (Inr cols)"
      and one: "length cols = 1"
  shows "\<exists>st'. p_init st (Some a) limits = Some (Inr True, st') \<and>
               m_outputTable (planNodes st' a) = Some (nextTable st) \<and>
               columnCount (tables st' (nextTable st)) = 1 \<and>
               asTableCountPlanNode (planNodes st' a) = Some node"
proof -
  from generateTupleSchema_columns [OF schema, of True] one obtain sch where
    sch: "generateTupleSchema (planNodes st) a True = Some (Inr sch)" "columnCount_schema sch = 1"
    by auto
  show ?thesis
    using node target schema one sch
    by (simp add: p_init_def setTempOutputTable_def Let_def newTempTable_def columnCount_def)
qed

lemma example_fresh_nodes:
  "asTableCountPlanNode (planNodes example_fresh 10) = None"
  "asTableCountPlanNode (planNodes example_fresh 23) =
     Some \<lparr>getTargetTable = Some 30,
           getPredicate = Some \<lparr>getValueType = VALUE_TYPE_INTEGER, getValueSize = 4\<rparr>\<rparr>"
  "asTableCountPlanNode (planNodes example_fresh 24) =
     Some \<lparr>getTargetTable = Some 30, getPredicate = None\<rparr>"
  "getOutputSchema (planNodes example_fresh) 23 = Some (Inr [col_A])"
  "getOutputSchema (planNodes example_fresh) 24 = Some (Inr [col_A, col_B])"
  by (simp_all add: example_fresh_def example_plan_def AbstractPlanNode_new_def getOutputSchema_def)

lemma p_init_example_23:
  "map_option fst (p_init example_fresh (Some 23) None) = Some (Inr True)"
  using p_init_one_column [of example_fresh 23 _ 30 "[col_A]" None]
  by (auto simp: example_fresh_nodes)

section \<open>Facts about the deserializer\<close>

lemma mapE_length: "mapE f xs = Inr ys \<Longrightarrow> length ys = length xs"
  by (induction xs arbitrary: ys) (auto split: sum.splits)

lemma bindE_Inr: "bindE m f = Inr y \<longleftrightarrow> (\<exists>x. m = Inr x \<and> f x = Inr y)"
  by (cases m) (simp_all add: bindE_def)

lemma outputSchema_elsewhere:
  assumes "fromJSONObject_outputSchema c obj h node = Inr h'"
  shows "b \<noteq> node \<Longrightarrow> h' b = h b"
  using assms
  by (auto simp: fromJSONObject_outputSchema_def bindE_Inr Let_def split: if_splits)

lemma finish_elsewhere:
  assumes "fromJSONObject_finish c obj h node = Inr h'"
  shows "b \<noteq> node \<Longrightarrow> h' b = h b"
  using assms outputSchema_elsewhere
  by (fastforce simp: fromJSONObject_finish_def bindE_Inr Let_def)

lemma addInlinePlanNode_frame:
  "b \<noteq> node \<Longrightarrow> b \<noteq> newNode \<Longrightarrow> addInlinePlanNode h node newNode b = h b"
  "node \<noteq> newNode \<Longrightarrow>
     addInlinePlanNode h node newNode node =
       (h node)\<lparr>m_inlineNodes := m_inlineNodes (addInlinePlanNode h node newNode node)\<rparr>"
  by (simp_all add: addInlinePlanNode_def Let_def)

lemma fromJSONObject_frame:
  shows "fromJSONObject c obj pool = Inr (a, pool') \<Longrightarrow>
           a = nextNode pool \<and> nextNode pool < nextNode pool' \<and>
           (\<forall>b<nextNode pool. nodes pool' b = nodes pool b)"
    and "fromJSONObject_inlineNodes c node objs pool = Inr pool' \<Longrightarrow> node < nextNode pool \<Longrightarrow>
           nextNode pool \<le> nextNode pool' \<and>
           (\<forall>b<nextNode pool. b \<noteq> node \<longrightarrow> nodes pool' b = nodes pool b) \<and>
           nodes pool' node = (nodes pool node)\<lparr>m_inlineNodes := m_inlineNodes (nodes pool' node)\<rparr>"
proof (induction c obj pool and c node objs pool arbitrary: a pool' and pool'
       rule: fromJSONObject_fromJSONObject_inlineNodes.induct)
  case (1 c obj pool)
  let ?nd = "nextNode pool"
  from "1.prems" have run:
    "(case fromJSONObject_begin c obj of
        Inl e \<Rightarrow> Inl e
      | Inr (node0, inlineNodeObjs) \<Rightarrow>
          (case fromJSONObject_inlineNodes c (nextNode pool) inlineNodeObjs
                  (pool\<lparr>nodes := (nodes pool)(nextNode pool := node0),
                        nextNode := Suc (nextNode pool)\<rparr>) of
             Inl e \<Rightarrow> Inl e
           | Inr pool1 \<Rightarrow>
               (case fromJSONObject_finish c obj (nodes pool1) (nextNode pool) of
                  Inl e \<Rightarrow> Inl e
                | Inr h \<Rightarrow> Inr (nextNode pool, pool1\<lparr>nodes := h\<rparr>)))) = Inr (a, pool')"
    by (simp only: fromJSONObject.simps(1))
  then obtain node0 objs where beg: "fromJSONObject_begin c obj = Inr (node0, objs)"
    by (cases "fromJSONObject_begin c obj") auto
  with run obtain pool1 where
    inl: "fromJSONObject_inlineNodes c ?nd objs
            (pool\<lparr>nodes := (nodes pool)(?nd := node0), nextNode := Suc ?nd\<rparr>) = Inr pool1"
    by (cases "fromJSONObject_inlineNodes c ?nd objs
            (pool\<lparr>nodes := (nodes pool)(?nd := node0), nextNode := Suc ?nd\<rparr>)") auto
  with run beg obtain h where fin: "fromJSONObject_finish c obj (nodes pool1) ?nd = Inr h"
    by (cases "fromJSONObject_finish c obj (nodes pool1) ?nd") auto
  with run beg inl have res: "a = ?nd" "pool' = pool1\<lparr>nodes := h\<rparr>"
    by simp_all
  from "1.IH" [OF beg refl inl] have
    p1: "Suc ?nd \<le> nextNode pool1"
        "\<forall>b<Suc ?nd. b \<noteq> ?nd \<longrightarrow> nodes pool1 b = nodes pool b"
    by simp_all
  have "nodes pool' b = nodes pool b" if "b < ?nd" for b
  proof -
    from that have "b \<noteq> ?nd" by simp
    with finish_elsewhere [OF fin] res have "nodes pool' b = nodes pool1 b" by simp
    with p1(2) that show ?thesis by simp
  qed
  with res p1(1) show ?case by simp
next
  case (2 c node pool)
  then show ?case by simp
next
  case (3 c node inlineNodeObj rest pool)
  from "3.prems"(1) have run:
    "(case fromJSONObject c inlineNodeObj pool of
        Inl e \<Rightarrow> Inl e
      | Inr (newNode, pool1) \<Rightarrow>
          fromJSONObject_inlineNodes c node rest
            (pool1\<lparr>nodes := addInlinePlanNode (nodes pool1) node newNode\<rparr>)) = Inr pool'"
    by (simp only: fromJSONObject_inlineNodes.simps(2))
  then obtain newNode pool1 where one: "fromJSONObject c inlineNodeObj pool = Inr (newNode, pool1)"
    by (cases "fromJSONObject c inlineNodeObj pool") auto
  with run have more: "fromJSONObject_inlineNodes c node rest
             (pool1\<lparr>nodes := addInlinePlanNode (nodes pool1) node newNode\<rparr>) = Inr pool'"
    by simp
  from "3.IH"(1) [OF one] have
    f1: "newNode = nextNode pool" "nextNode pool < nextNode pool1"
        "\<forall>b<nextNode pool. nodes pool1 b = nodes pool b"
    by simp_all
  from f1 "3.prems"(2) have lt: "node < nextNode pool1" and ne: "node \<noteq> newNode" by simp_all
  from "3.IH"(2) [OF one refl more] lt have
    f2: "nextNode pool1 \<le> nextNode pool'"
        "\<forall>b<nextNode pool1. b \<noteq> node \<longrightarrow>
           nodes pool' b = addInlinePlanNode (nodes pool1) node newNode b"
        "nodes pool' node = (addInlinePlanNode (nodes pool1) node newNode node)
           \<lparr>m_inlineNodes := m_inlineNodes (nodes pool' node)\<rparr>"
    by simp_all
  have a: "nextNode pool \<le> nextNode pool'" using f1(2) f2(1) by simp
  have b: "nodes pool' b = nodes pool b" if "b < nextNode pool" "b \<noteq> node" for b
  proof -
    from that f1 have "b < nextNode pool1" "b \<noteq> newNode" by simp_all
    with f2(2) that(2) have "nodes pool' b = nodes pool1 b"
      by (simp add: addInlinePlanNode_frame(1))
    with f1(3) that(1) show ?thesis by simp
  qed
  have "nodes pool' node = ((nodes pool1 node)\<lparr>m_inlineNodes :=
           m_inlineNodes (addInlinePlanNode (nodes pool1) node newNode node)\<rparr>)
           \<lparr>m_inlineNodes := m_inlineNodes (nodes pool' node)\<rparr>"
    using f2(3) addInlinePlanNode_frame(2) [OF ne, of "nodes pool1"] by simp
  also have "\<dots> = (nodes pool1 node)\<lparr>m_inlineNodes := m_inlineNodes (nodes pool' node)\<rparr>"
    by simp
  also have "nodes pool1 node = nodes pool node" using f1(3) "3.prems"(2) by simp
  finally have c: "nodes pool' node = (nodes pool node)\<lparr>m_inlineNodes := m_inlineNodes (nodes pool' node)\<rparr>" .
  from a b c show ?case by blast
qed

lemma fromJSONObject_begin_fresh:
  assumes "fromJSONObject_begin c obj = Inr (node0, objs)"
      and "\<forall>t n. getEmptyPlanNode c t = Inr n \<longrightarrow> m_outputSchema n = []"
  shows "m_outputSchema node0 = []"
  using assms by (auto simp: fromJSONObject_begin_def bindE_Inr)

lemma outputSchema_step:
  assumes step: "fromJSONObject_outputSchema c obj h node = Inr h2"
      and empty: "m_outputSchema (h node) = []"
  shows "m_inlineNodes (h2 node) = m_inlineNodes (h node)"
    and "hasKey obj ''OUTPUT_SCHEMA'' \<Longrightarrow>
           \<exists>entries. valueForKey obj ''OUTPUT_SCHEMA'' = Inr (DomArray entries) \<and>
             mapE (newSchemaColumn c) entries = Inr (m_outputSchema (h2 node)) \<and>
             m_validOutputColumnCount (h2 node) = int (length entries)"
    and "\<not> hasKey obj ''OUTPUT_SCHEMA'' \<Longrightarrow> m_inlineNodes (h node) PLAN_NODE_TYPE_PROJECTION \<noteq> None \<Longrightarrow>
           m_validOutputColumnCount (h2 node) = SCHEMA_UNDEFINED_SO_GET_FROM_INLINE_PROJECTION"
    and "\<not> hasKey obj ''OUTPUT_SCHEMA'' \<Longrightarrow> m_inlineNodes (h node) PLAN_NODE_TYPE_PROJECTION = None \<Longrightarrow>
           m_validOutputColumnCount (h2 node) = SCHEMA_UNDEFINED_SO_GET_FROM_CHILD"
proof -
  show "m_inlineNodes (h2 node) = m_inlineNodes (h node)"
    using step
    by (auto simp: fromJSONObject_outputSchema_def bindE_Inr Let_def split: if_splits)
  show "\<exists>entries. valueForKey obj ''OUTPUT_SCHEMA'' = Inr (DomArray entries) \<and>
             mapE (newSchemaColumn c) entries = Inr (m_outputSchema (h2 node)) \<and>
             m_validOutputColumnCount (h2 node) = int (length entries)"
    if "hasKey obj ''OUTPUT_SCHEMA''"
  proof -
    from step that obtain arr entries cols where
      v: "valueForKey obj ''OUTPUT_SCHEMA'' = Inr arr" "asArray arr = Inr entries"
         "mapE (newSchemaColumn c) entries = Inr cols" and
      h2: "h2 = h(node := (h node)\<lparr>m_outputSchema := m_outputSchema (h node) @ cols,
                    m_validOutputColumnCount := int (length (m_outputSchema (h node) @ cols))\<rparr>)"
      by (auto simp: fromJSONObject_outputSchema_def bindE_Inr Let_def)
    from v(2) have "arr = DomArray entries"
      by (auto simp: asArray_def split: PlannerDomValue.splits)
    with v h2 empty mapE_length [OF v(3)] show ?thesis by simp
  qed
  show "m_validOutputColumnCount (h2 node) = SCHEMA_UNDEFINED_SO_GET_FROM_INLINE_PROJECTION"
    if "\<not> hasKey obj ''OUTPUT_SCHEMA''" "m_inlineNodes (h node) PLAN_NODE_TYPE_PROJECTION \<noteq> None"
    using step that
    by (auto simp: fromJSONObject_outputSchema_def getInlinePlanNode_def split: option.splits)
  show "m_validOutputColumnCount (h2 node) = SCHEMA_UNDEFINED_SO_GET_FROM_CHILD"
    if "\<not> hasKey obj ''OUTPUT_SCHEMA''" "m_inlineNodes (h node) PLAN_NODE_TYPE_PROJECTION = None"
    using step that
    by (auto simp: fromJSONObject_outputSchema_def getInlinePlanNode_def split: option.splits)
qed

lemma finish_steps:
  assumes "fromJSONObject_finish c obj h node = Inr h'"
  shows "\<exists>h1 h2. m_outputSchema (h1 node) = m_outputSchema (h node) \<and>
                 m_inlineNodes (h1 node) = m_inlineNodes (h node) \<and>
                 fromJSONObject_outputSchema c obj h1 node = Inr h2 \<and>
                 loadFromJSONObject c obj (h2 node) = Inr (h' node)"
proof -
  from assms obtain ps cs h2 loaded where
    st: "fromJSONObject_outputSchema c obj
           (h(node := (h node)\<lparr>m_parentIds := m_parentIds (h node) @ ps,
                                m_childIds := m_childIds (h node) @ cs\<rparr>)) node = Inr h2"
        "loadFromJSONObject c obj (h2 node) = Inr loaded" "h' = h2(node := loaded)"
    by (auto simp: fromJSONObject_finish_def bindE_Inr Let_def)
  let ?h1 = "h(node := (h node)\<lparr>m_parentIds := m_parentIds (h node) @ ps,
                                m_childIds := m_childIds (h node) @ cs\<rparr>)"
  have "m_outputSchema (?h1 node) = m_outputSchema (h node)"
       "m_inlineNodes (?h1 node) = m_inlineNodes (h node)" by simp_all
  with st show ?thesis by (intro exI [of _ ?h1] exI [of _ h2]) simp
qed

lemmas document_defs =
  fromJSONObject_begin_def fromJSONObject_finish_def fromJSONObject_outputSchema_def
  valueForKey_def hasKey_def asStr_def asInt_def asArray_def bindE_def

lemma built_projection:
  "\<exists>pool'. fromJSONObject example_collaborators doc_projection example_pool = Inr (50, pool')"
  by (simp add: fromJSONObject.simps document_defs doc_projection_def example_collaborators_def
        example_pool_def Let_def)

lemma built_scan:
  "\<exists>pool'. fromJSONObject example_collaborators doc_scan example_pool = Inr (50, pool') \<and>
           getInlinePlanNode (nodes pool') 50 PLAN_NODE_TYPE_PROJECTION = Some 51"
  by (simp add: fromJSONObject.simps document_defs doc_scan_def doc_projection_def
        example_collaborators_def example_pool_def Let_def addInlinePlanNode_def
        getInlinePlanNode_def AbstractPlanNode_new_def)

lemma built_limit:
  "\<exists>pool'. fromJSONObject example_collaborators doc_limit example_pool = Inr (50, pool') \<and>
           getInlinePlanNode (nodes pool') 50 PLAN_NODE_TYPE_PROJECTION = None"
  by (simp add: fromJSONObject.simps document_defs doc_limit_def
        example_collaborators_def example_pool_def Let_def addInlinePlanNode_def
        getInlinePlanNode_def AbstractPlanNode_new_def)

lemma example_collaborators_ok:
  "\<forall>t n. getEmptyPlanNode example_collaborators t = Inr n \<longrightarrow> m_outputSchema n = []"
  "\<forall>d n n'. loadFromJSONObject example_collaborators d n = Inr n' \<longrightarrow>
     m_validOutputColumnCount n' = m_validOutputColumnCount n \<and>
     m_outputSchema n' = m_outputSchema n \<and>
     m_inlineNodes n' = m_inlineNodes n"
  by (auto simp: example_collaborators_def AbstractPlanNode_new_def split: if_splits)

lemma example_documents:
  "hasKey doc_projection ''OUTPUT_SCHEMA''"
  "valueForKey doc_projection ''OUTPUT_SCHEMA'' =
     Inr (DomArray [DomObject [(''COLUMN_NAME'', DomStr ''A'')],
                    DomObject [(''COLUMN_NAME'', DomStr ''B'')]])"
  "\<not> hasKey doc_scan ''OUTPUT_SCHEMA''"
  "\<not> hasKey doc_limit ''OUTPUT_SCHEMA''"
  by (simp_all add: hasKey_def valueForKey_def doc_projection_def doc_scan_def doc_limit_def)

section \<open>Schema resolution: the base case\<close>

text \<open>
  C1. For every plan node whose \<open>m_validOutputColumnCount\<close> is not negative (the tag
  DEFINED_HERE), \<open>getOutputSchema\<close> returns, without failing and without looping, exactly the
  node's own \<open>m_outputSchema\<close> sequence: the same columns in the same order.
\<close>

theorem getOutputSchema_defined_here:
  assumes "m_validOutputColumnCount (h this) \<ge> 0"
  shows "getOutputSchema h this = Some (Inr (m_outputSchema (h this)))"
  using assms by (simp add: getOutputSchema_def)

theorem getOutputSchema_defined_here_witness:
  "m_validOutputColumnCount (example_plan 13) \<ge> 0 \<and>
   getOutputSchema example_plan 13 = Some (Inr [col_A, col_B])"
proof -
  have tag: "m_validOutputColumnCount (example_plan 13) \<ge> 0"
    by (simp add: example_plan_def AbstractPlanNode_new_def)
  have own: "m_outputSchema (example_plan 13) = [col_A, col_B]"
    by (simp add: example_plan_def AbstractPlanNode_new_def)
  from getOutputSchema_defined_here [of example_plan 13] own tag show ?thesis by simp
qed

section \<open>Schema resolution: delegation to the inline projection\<close>

text \<open>
  C2. For every plan node whose tag is \<open>SCHEMA_UNDEFINED_SO_GET_FROM_INLINE_PROJECTION\<close>,
  \<open>getOutputSchema\<close> looks up the inline node of projection type on that very node. If there
  is one and it defines its own schema, that schema is returned. If there is none, or if
  the one there does not define its own schema, the resolution takes the failing path of
  its assertion: it builds the message, which ends with \<^verbatim>\<open>debug("")\<close> of the node, and throws
  the fatal logic error with it. The outcome is fatal in any case, never a result and never
  an exception meant to be handled; where the plan below the node is a tree, so that the
  message can be built, it is the fatal logic error with that message.
\<close>

theorem getOutputSchema_inline_projection:
  assumes "m_validOutputColumnCount (h this) = SCHEMA_UNDEFINED_SO_GET_FROM_INLINE_PROJECTION"
  shows "(getInlinePlanNode h this PLAN_NODE_TYPE_PROJECTION = None \<longrightarrow>
            getOutputSchema h this =
              throwFatalLogicErrorStreamed
                (''Incorrect output schema source for plannode:'' @ endl)
                (debug_traverse h this True) \<and>
            fatal (getOutputSchema h this) \<and>
            (plan_tree h this \<longrightarrow>
               (\<exists>items. getOutputSchema h this =
                  Some (Inl (FatalLogicError
                    (DbgText (''Incorrect output schema source for plannode:'' @ endl) # items)))))) \<and>
         (\<forall>p. getInlinePlanNode h this PLAN_NODE_TYPE_PROJECTION = Some p \<longrightarrow>
            (m_validOutputColumnCount (h p) \<ge> 0 \<longrightarrow>
               getOutputSchema h this = Some (Inr (m_outputSchema (h p)))) \<and>
            (m_validOutputColumnCount (h p) < 0 \<longrightarrow>
               getOutputSchema h this =
                 throwFatalLogicErrorStreamed
                   (''Missing output schema for inline projection:'' @ endl)
                   (debug_traverse h this True) \<and>
               fatal (getOutputSchema h this) \<and>
               (plan_tree h this \<longrightarrow>
                  (\<exists>items. getOutputSchema h this =
                     Some (Inl (FatalLogicError
                       (DbgText (''Missing output schema for inline projection:'' @ endl) # items)))))))"
proof -
  note eq = getOutputSchema_at_inline_projection [of h this, OF assms]
  have none: "getOutputSchema h this =
                throwFatalLogicErrorStreamed
                  (''Incorrect output schema source for plannode:'' @ endl)
                  (debug_traverse h this True)"
    if "getInlinePlanNode h this PLAN_NODE_TYPE_PROJECTION = None"
    using eq that by simp
  have good: "getOutputSchema h this = Some (Inr (m_outputSchema (h p)))"
    if "getInlinePlanNode h this PLAN_NODE_TYPE_PROJECTION = Some p"
       "m_validOutputColumnCount (h p) \<ge> 0" for p
    using eq that by simp
  have bad: "getOutputSchema h this =
                throwFatalLogicErrorStreamed
                  (''Missing output schema for inline projection:'' @ endl)
                  (debug_traverse h this True)"
    if "getInlinePlanNode h this PLAN_NODE_TYPE_PROJECTION = Some p"
       "m_validOutputColumnCount (h p) < 0" for p
    using eq that by simp
  have thrown: "fatal (getOutputSchema h this) \<and>
                (plan_tree h this \<longrightarrow>
                   (\<exists>items. getOutputSchema h this =
                      Some (Inl (FatalLogicError (DbgText msg # items)))))"
    if "getOutputSchema h this =
          throwFatalLogicErrorStreamed msg (debug_traverse h this True)" for msg
  proof -
    have "fatal (getOutputSchema h this)"
      by (subst that) (rule throw_fatal)
    moreover have "\<exists>items. getOutputSchema h this =
                      Some (Inl (FatalLogicError (DbgText msg # items)))"
      if "plan_tree h this"
      using throw_on_tree [OF that, of msg]
            \<open>getOutputSchema h this = throwFatalLogicErrorStreamed msg (debug_traverse h this True)\<close>
      by auto
    ultimately show ?thesis by blast
  qed
  from none good bad thrown show ?thesis by blast
qed

theorem getOutputSchema_inline_projection_witness:
  "getOutputSchema example_plan 12 = Some (Inr [col_A, col_B]) \<and>
   getOutputSchema example_plan 18 =
     Some (Inl (FatalLogicError
       [DbgText (''Incorrect output schema source for plannode:'' @ endl),
        DbgText [], DbgText ''* '', DbgTypeName PLAN_NODE_TYPE_SEQSCAN, DbgText ''['',
        DbgNumber 108, DbgText '']'', DbgText endl, DbgInfo 18 ''  |''])) \<and>
   getOutputSchema example_plan 19 =
     Some (Inl (FatalLogicError
       [DbgText (''Missing output schema for inline projection:'' @ endl),
        DbgText [], DbgText ''* '', DbgTypeName PLAN_NODE_TYPE_SEQSCAN, DbgText ''['',
        DbgNumber 109, DbgText '']'', DbgText endl, DbgInfo 19 ''  |'',
        DbgText ''  |'', DbgText ''Inline Plannodes: '', DbgNumber 1, DbgText endl,
        DbgText ''  |'', DbgText ''Inline '', DbgTypeName PLAN_NODE_TYPE_LIMIT,
        DbgText ('':'' @ endl), DbgInfo 16 ''  |  '']))"
  using getOutputSchema_inline_projection [of example_plan 12]
        getOutputSchema_inline_projection [of example_plan 18]
        getOutputSchema_inline_projection [of example_plan 19]
        tag_facts
  by (simp add: example_tags example_inline example_schema example_messages
        throwFatalLogicErrorStreamed_def)

section \<open>Schema resolution: termination\<close>

text \<open>
  C3 claims that resolution returns on every input, detecting a cyclic chain of first-child
  delegations. The loop keeps no record of the nodes it has visited. Node 15 of the
  concrete plan delegates to its first child and is its own first child: the cursor stays
  on node 15 for ever, and \<open>getOutputSchema\<close> does not return.
\<close>

theorem getOutputSchema_cycle_never_returns:
  "m_validOutputColumnCount (example_plan 15) = SCHEMA_UNDEFINED_SO_GET_FROM_CHILD \<and>
   m_children (example_plan 15) = [Some 15] \<and>
   getOutputSchema example_plan 15 = None"
proof -
  have only: "first_child_chain example_plan a b \<Longrightarrow> a = 15 \<Longrightarrow> b = 15" for a b
    by (induction rule: first_child_chain.induct) (auto simp: example_hops)
  have "getOutputSchema_loop example_plan 15 15 = None"
  proof (rule ccontr)
    assume "getOutputSchema_loop example_plan 15 15 \<noteq> None"
    then obtain r where "getOutputSchema_loop example_plan 15 15 = Some r" by auto
    from loop_Some_chain [OF this] obtain b where
      "first_child_chain example_plan 15 b" "first_child_hop example_plan b = None" by blast
    from only [OF this(1) refl] this(2) example_hops(4) show False by simp
  qed
  moreover have "m_validOutputColumnCount (example_plan 15) < 0"
    using tag_facts by (simp add: example_tags)
  ultimately have "getOutputSchema example_plan 15 = None" by (simp add: getOutputSchema_def)
  then show ?thesis by (simp add: example_tags example_children)
qed

text \<open>
  C3, as amended. On every node below which the plan is a tree (no child pointer is NULL,
  no path along child pointers is endless), \<open>getOutputSchema\<close> returns: a schema or the fatal
  logic error. In particular, for a node that begins a chain of only first-child
  delegations which never reaches a node defining a schema, because the last node of the
  chain has no children, the unresolvable case is detected and the fatal logic error is
  thrown, with the message for an incorrect output schema source.
\<close>

theorem getOutputSchema_returns_on_tree:
  assumes tree: "plan_tree h this"
  shows "(\<exists>r. getOutputSchema h this = Some r \<and>
              ((\<exists>cols. r = Inr cols) \<or> (\<exists>message. r = Inl (FatalLogicError message)))) \<and>
         (\<forall>b. m_validOutputColumnCount (h this) < 0 \<and> first_child_chain h this b \<and>
              m_validOutputColumnCount (h b) = SCHEMA_UNDEFINED_SO_GET_FROM_CHILD \<and>
              m_children (h b) = [] \<longrightarrow>
            (\<exists>items. getOutputSchema h this =
               Some (Inl (FatalLogicError
                 (DbgText (''Incorrect output schema source for plannode:'' @ endl) # items)))))"
proof -
  have thrown: "\<exists>items. throwFatalLogicErrorStreamed msg (debug_traverse h this True) =
                  (Some (Inl (FatalLogicError (DbgText msg # items)))
                     :: (error + SchemaColumn list) option)" for msg
    using throw_on_tree [OF tree, of msg] by blast
  have returns: "\<exists>r. getOutputSchema h this = Some r \<and>
              ((\<exists>cols. r = Inr cols) \<or> (\<exists>message. r = Inl (FatalLogicError message)))"
  proof (cases "m_validOutputColumnCount (h this) \<ge> 0")
    case True
    then show ?thesis by (simp add: getOutputSchema_def)
  next
    case False
    from plan_tree_chain [OF tree] obtain b where
      chain: "first_child_chain h this b" and stop: "first_child_hop h b = None" by blast
    from loop_chain [OF chain, of this]
    have eq: "getOutputSchema_loop h this this = getOutputSchema_loop h this b" .
    from loop_stop [OF stop, of this] thrown eq False show ?thesis
      by (fastforce simp: getOutputSchema_def)
  qed
  have fails: "\<exists>items. getOutputSchema h this =
               Some (Inl (FatalLogicError
                 (DbgText (''Incorrect output schema source for plannode:'' @ endl) # items)))"
    if "m_validOutputColumnCount (h this) < 0" "first_child_chain h this b"
       "m_validOutputColumnCount (h b) = SCHEMA_UNDEFINED_SO_GET_FROM_CHILD"
       "m_children (h b) = []" for b
  proof -
    from loop_chain [OF that(2), of this] loop_at_no_child [of h b this] that(3,4)
    have "getOutputSchema_loop h this this =
            throwFatalLogicErrorStreamed
              (''Incorrect output schema source for plannode:'' @ endl)
              (debug_traverse h this True)" by simp
    with that(1) thrown [of "''Incorrect output schema source for plannode:'' @ endl"]
    show ?thesis by (simp add: getOutputSchema_def)
  qed
  from returns fails show ?thesis by blast
qed

theorem getOutputSchema_returns_on_tree_witness:
  "plan_tree example_plan 17 \<and> first_child_chain example_plan 17 16 \<and>
   m_children (example_plan 16) = [] \<and>
   (\<exists>items. getOutputSchema example_plan 17 =
      Some (Inl (FatalLogicError
        (DbgText (''Incorrect output schema source for plannode:'' @ endl) # items)))) \<and>
   plan_tree example_plan 12 \<and>
   getOutputSchema example_plan 12 = Some (Inr [col_A, col_B])"
proof -
  have "m_validOutputColumnCount (example_plan 17) < 0 \<and>
        first_child_chain example_plan 17 16 \<and>
        m_validOutputColumnCount (example_plan 16) = SCHEMA_UNDEFINED_SO_GET_FROM_CHILD \<and>
        m_children (example_plan 16) = []"
    using example_chains(3) tag_facts by (simp add: example_tags example_children)
  with getOutputSchema_returns_on_tree [OF example_trees(3)]
  have "\<exists>items. getOutputSchema example_plan 17 =
      Some (Inl (FatalLogicError
        (DbgText (''Incorrect output schema source for plannode:'' @ endl) # items)))"
    by blast
  moreover from getOutputSchema_returns_on_tree [OF example_trees(1)]
  have "\<exists>r. getOutputSchema example_plan 12 = Some r" by blast
  ultimately show ?thesis
    using example_trees example_chains example_children example_plan_12_resolves by simp
qed

section \<open>Schema resolution: delegation to the first child\<close>




section \<open>Inline nodes: adding and looking up\<close>

text \<open>
  C10. After \<open>addInlinePlanNode\<close> of a node \<open>m\<close> on a host, for every store, host and \<open>m\<close>:
  the inline flag of \<open>m\<close> is set and its type is what it was; looking up the type of \<open>m\<close> on
  the host yields \<open>m\<close>; the entries for all other types are what they were; a different
  node that the host held only under the type of \<open>m\<close> cannot be retrieved under any type
  any more, so it has been replaced without notice; and a lookup for a type that has no
  entry yields NULL (\<open>None\<close>), it does not fail.
\<close>

theorem addInlinePlanNode_then_getInlinePlanNode:
  "isInline (addInlinePlanNode h host m) m \<and>
   getPlanNodeType (addInlinePlanNode h host m m) = getPlanNodeType (h m) \<and>
   getInlinePlanNode (addInlinePlanNode h host m) host (getPlanNodeType (h m)) = Some m \<and>
   (\<forall>t. t \<noteq> getPlanNodeType (h m) \<longrightarrow>
      getInlinePlanNode (addInlinePlanNode h host m) host t = getInlinePlanNode h host t) \<and>
   (\<forall>p. p \<noteq> m \<and> (\<forall>t. getInlinePlanNode h host t = Some p \<longrightarrow> t = getPlanNodeType (h m)) \<longrightarrow>
      (\<forall>t. getInlinePlanNode (addInlinePlanNode h host m) host t \<noteq> Some p)) \<and>
   (\<forall>t. m_inlineNodes (h host) t = None \<longrightarrow> getInlinePlanNode h host t = None)"
proof -
  let ?h' = "addInlinePlanNode h host m"
  let ?ty = "getPlanNodeType (h m)"
  have map': "m_inlineNodes (?h' host) = (m_inlineNodes (h host))(?ty \<mapsto> m)"
    by (simp add: addInlinePlanNode_def Let_def)
  have look: "getInlinePlanNode g a t = m_inlineNodes (g a) t" for g :: heap and a t
    by (simp add: getInlinePlanNode_def split: option.splits)
  have flag: "isInline ?h' m"
    by (simp add: addInlinePlanNode_def Let_def isInline_def)
  have ty: "getPlanNodeType (?h' m) = ?ty"
    by (simp add: addInlinePlanNode_def Let_def)
  have got: "getInlinePlanNode ?h' host ?ty = Some m"
    by (simp add: look map')
  have others: "getInlinePlanNode ?h' host t = getInlinePlanNode h host t" if "t \<noteq> ?ty" for t
    using that by (simp add: look map')
  have gone: "getInlinePlanNode ?h' host t \<noteq> Some p"
    if "p \<noteq> m" "\<forall>t. getInlinePlanNode h host t = Some p \<longrightarrow> t = ?ty" for p t
  proof (cases "t = ?ty")
    case True
    with got that(1) show ?thesis by simp
  next
    case False
    with others [OF False] that(2) show ?thesis by auto
  qed
  have absent: "getInlinePlanNode h host t = None" if "m_inlineNodes (h host) t = None" for t
    using that by (simp add: look)
  from flag ty got others gone absent show ?thesis by blast
qed

theorem addInlinePlanNode_then_getInlinePlanNode_witness:
  "\<not> isInline example_plan 20 \<and>
   getInlinePlanNode example_plan 12 PLAN_NODE_TYPE_PROJECTION = Some 13 \<and>
   isInline (addInlinePlanNode example_plan 12 20) 20 \<and>
   getInlinePlanNode (addInlinePlanNode example_plan 12 20) 12 PLAN_NODE_TYPE_PROJECTION = Some 20 \<and>
   getInlinePlanNode (addInlinePlanNode example_plan 12 20) 12 PLAN_NODE_TYPE_LIMIT = None \<and>
   (\<forall>t. getInlinePlanNode (addInlinePlanNode example_plan 12 20) 12 t \<noteq> Some 13)"
proof -
  have look: "getInlinePlanNode example_plan 12 t = [PLAN_NODE_TYPE_PROJECTION \<mapsto> 13] t" for t
    by (simp add: getInlinePlanNode_def example_types split: option.splits)
  have only: "\<forall>t. getInlinePlanNode example_plan 12 t = Some 13 \<longrightarrow>
                t = getPlanNodeType (example_plan 20)"
    by (simp add: look example_types)
  have limit: "getInlinePlanNode example_plan 12 PLAN_NODE_TYPE_LIMIT = None"
    by (simp add: look)
  note inst = addInlinePlanNode_then_getInlinePlanNode [of example_plan 12 20]
  from inst have a: "isInline (addInlinePlanNode example_plan 12 20) 20" by blast
  from inst have b: "getInlinePlanNode (addInlinePlanNode example_plan 12 20) 12
                      PLAN_NODE_TYPE_PROJECTION = Some 20"
    by (simp add: example_types)
  from inst have "getInlinePlanNode (addInlinePlanNode example_plan 12 20) 12 PLAN_NODE_TYPE_LIMIT
                   = getInlinePlanNode example_plan 12 PLAN_NODE_TYPE_LIMIT"
    by (simp add: example_types)
  with limit have c: "getInlinePlanNode (addInlinePlanNode example_plan 12 20) 12
                        PLAN_NODE_TYPE_LIMIT = None" by simp
  have ne: "(13::nat) \<noteq> 20" by simp
  from inst have "(13::nat) \<noteq> 20 \<and>
        (\<forall>t. getInlinePlanNode example_plan 12 t = Some 13 \<longrightarrow>
           t = getPlanNodeType (example_plan 20)) \<longrightarrow>
        (\<forall>t. getInlinePlanNode (addInlinePlanNode example_plan 12 20) 12 t \<noteq> Some 13)"
    by blast
  with ne only have d: "\<forall>t. getInlinePlanNode (addInlinePlanNode example_plan 12 20) 12 t \<noteq> Some 13"
    by blast
  have e: "\<not> isInline example_plan 20" by (simp add: isInline_def example_types)
  from a b c d e look show ?thesis by simp
qed

section \<open>The layout of the row count of a DML operator\<close>

text \<open>
  C8. Whatever the store and whatever the node it is called on,
  \<open>generateDMLCountTupleSchema\<close> returns the layout with exactly one column, of type
  \<open>VALUE_TYPE_BIGINT\<close>, 8 bytes wide and not nullable. The result is the same for any two
  stores and nodes: it reads neither the schema fields nor the schema-origin tag of the node
  and does not resolve a schema, so it returns also where \<open>getOutputSchema\<close> fails or loops.
\<close>

theorem generateDMLCountTupleSchema_one_bigint_column:
  "schemaColumns (generateDMLCountTupleSchema h this) =
     [\<lparr>columnType = VALUE_TYPE_BIGINT, columnSize = 8, columnAllowNull = False\<rparr>] \<and>
   columnCount_schema (generateDMLCountTupleSchema h this) = 1 \<and>
   generateDMLCountTupleSchema h' this' = generateDMLCountTupleSchema h this"
  by (simp add: generateDMLCountTupleSchema_def createTupleSchema_def columnCount_schema_def)

section \<open>The table-count executor: execute\<close>

text \<open>
  C6. Let the executor be bound to a table-count node without predicate whose output table
  has one column (what the assertions of \<open>p_execute\<close> require), and let the target be a
  persistent table. Then one call of \<open>p_execute\<close> returns \<open>true\<close> and appends exactly one row
  to the output table: the row whose single value is the visible tuple count of the target
  as a 64-bit integer. No other table and no plan node changes. The visible count of a
  table whose active rows are all deleted is 0, and that of a table with 1000 active rows of
  which 3 are deleted and not yet reclaimed is 997.
\<close>

theorem p_execute_appends_visible_count:
  assumes node: "asTableCountPlanNode (planNodes st a) = Some node"
      and out: "m_outputTable (planNodes st a) = Some ot"
      and cols: "columnCount (tables st ot) = 1"
      and target: "getTargetTable node = Some tt"
      and pers: "isPersistentTable (tables st tt)"
      and nopred: "getPredicate node = None"
  shows "fst (p_execute st (Some a) params) = Inr True \<and>
         m_tuples (tables (snd (p_execute st (Some a) params)) ot) =
           m_tuples (tables st ot) @ [[BigIntValue (visibleTupleCount (tables st tt))]] \<and>
         (\<forall>t. t \<noteq> ot \<longrightarrow> tables (snd (p_execute st (Some a) params)) t = tables st t) \<and>
         planNodes (snd (p_execute st (Some a) params)) = planNodes st \<and>
         (activeTupleCount (tables st tt) = pendingDeleteTupleCount (tables st tt) \<longrightarrow>
            visibleTupleCount (tables st tt) = 0) \<and>
         (activeTupleCount (tables st tt) = 1000 \<and> pendingDeleteTupleCount (tables st tt) = 3 \<longrightarrow>
            visibleTupleCount (tables st tt) = 997)"
  by (simp add: p_execute_persistent [OF assms] visibleTupleCount_def)

theorem p_execute_appends_visible_count_witness:
  "fst (p_execute example_engine (Some 14) []) = Inr True \<and>
   m_tuples (tables (snd (p_execute example_engine (Some 14) [])) 41) = [[BigIntValue 997]] \<and>
   fst (p_execute example_engine (Some 21) []) = Inr True \<and>
   m_tuples (tables (snd (p_execute example_engine (Some 21) [])) 42) = [[BigIntValue 0]]"
proof -
  have a: "fst (p_execute example_engine (Some 14) []) = Inr True \<and>
           m_tuples (tables (snd (p_execute example_engine (Some 14) [])) 41) = [[BigIntValue 997]]"
    using p_execute_appends_visible_count [of example_engine 14
            "\<lparr>getTargetTable = Some 30, getPredicate = None\<rparr>" 41 30 "[]"]
    by (simp add: example_engine_nodes example_engine_tables)
  have b: "fst (p_execute example_engine (Some 21) []) = Inr True \<and>
           m_tuples (tables (snd (p_execute example_engine (Some 21) [])) 42) = [[BigIntValue 0]]"
    using p_execute_appends_visible_count [of example_engine 21
            "\<lparr>getTargetTable = Some 33, getPredicate = None\<rparr>" 42 33 "[]"]
    by (simp add: example_engine_nodes example_engine_tables)
  from a b show ?thesis by simp
qed

text \<open>
  C7. Under the same assertions, if the target is not a persistent table (a streamed table),
  \<open>p_execute\<close> throws the structured exception of type \<open>VOLT_EE_EXCEPTION_TYPE_EEEXCEPTION\<close>
  with the message "May not iterate a streamed table." and leaves the whole state, the
  output table included, as it was: no row has been appended.
\<close>

theorem p_execute_rejects_streamed_table:
  assumes node: "asTableCountPlanNode (planNodes st a) = Some node"
      and out: "m_outputTable (planNodes st a) = Some ot"
      and cols: "columnCount (tables st ot) = 1"
      and target: "getTargetTable node = Some tt"
      and streamed: "\<not> isPersistentTable (tables st tt)"
  shows "p_execute st (Some a) params =
           (Inl (SerializableEEException VOLT_EE_EXCEPTION_TYPE_EEEXCEPTION
                   ''May not iterate a streamed table.''), st)"
  using assms by (simp add: p_execute_def)

theorem p_execute_rejects_streamed_table_witness:
  "\<not> isPersistentTable (tables example_engine 32) \<and>
   fst (p_execute example_engine (Some 22) []) =
     Inl (SerializableEEException VOLT_EE_EXCEPTION_TYPE_EEEXCEPTION
            ''May not iterate a streamed table.'') \<and>
   snd (p_execute example_engine (Some 22) []) = example_engine \<and>
   m_tuples (tables (snd (p_execute example_engine (Some 22) [])) 43) = []"
  using p_execute_rejects_streamed_table [of example_engine 22
          "\<lparr>getTargetTable = Some 32, getPredicate = None\<rparr>" 43 32 "[]"]
  by (simp add: example_engine_nodes example_engine_tables)

section \<open>The table-count executor: init\<close>

text \<open>
  C9 claims that init rejects a node with a residual predicate. \<open>p_init\<close> does not read the
  predicate: node 23 of the concrete plan is a table count with one output column and with
  a predicate, and \<open>p_init\<close> returns \<open>true\<close> for it.
\<close>

theorem p_init_accepts_predicate:
  "asTableCountPlanNode (planNodes example_fresh 23) =
     Some \<lparr>getTargetTable = Some 30,
           getPredicate = Some \<lparr>getValueType = VALUE_TYPE_INTEGER, getValueSize = 4\<rparr>\<rparr> \<and>
   map_option fst (p_init example_fresh (Some 23) None) = Some (Inr True)"
  by (simp add: p_init_example_23 example_fresh_nodes)

text \<open>
  C9, as amended. \<open>p_init\<close> validates by assertion that the bound node is a table-count
  node, that it has a target table, and that its resolved output schema has exactly one
  column; each violation ends init with an assertion failure and an unchanged state. When
  all three hold, init returns \<open>true\<close>, whatever the predicate of the node, and leaves the
  node with a fresh output table of one column, so that \<open>p_execute\<close> may rely on the column
  count. The absence of a predicate is asserted by \<open>p_execute\<close> itself, once the target has
  been found to be a persistent table.
\<close>

theorem p_init_checks_columns_not_predicate:
  "(asTableCountPlanNode (planNodes st a) = None \<longrightarrow>
      p_init st (Some a) limits = Some (Inl AssertionFailure, st)) \<and>
   (\<forall>node. asTableCountPlanNode (planNodes st a) = Some node \<and> getTargetTable node = None \<longrightarrow>
      p_init st (Some a) limits = Some (Inl AssertionFailure, st)) \<and>
   (\<forall>node tt cols. asTableCountPlanNode (planNodes st a) = Some node \<and>
        getTargetTable node = Some tt \<and>
        getOutputSchema (planNodes st) a = Some (Inr cols) \<and> length cols \<noteq> 1 \<longrightarrow>
      p_init st (Some a) limits = Some (Inl AssertionFailure, st)) \<and>
   (\<forall>node tt cols. asTableCountPlanNode (planNodes st a) = Some node \<and>
        getTargetTable node = Some tt \<and>
        getOutputSchema (planNodes st) a = Some (Inr cols) \<and> length cols = 1 \<longrightarrow>
      (\<exists>st'. p_init st (Some a) limits = Some (Inr True, st') \<and>
             m_outputTable (planNodes st' a) = Some (nextTable st) \<and>
             columnCount (tables st' (nextTable st)) = 1 \<and>
             asTableCountPlanNode (planNodes st' a) = Some node)) \<and>
   (\<forall>node ot tt. asTableCountPlanNode (planNodes st a) = Some node \<and>
        m_outputTable (planNodes st a) = Some ot \<and> columnCount (tables st ot) = 1 \<and>
        getTargetTable node = Some tt \<and> isPersistentTable (tables st tt) \<and>
        getPredicate node \<noteq> None \<longrightarrow>
      p_execute st (Some a) params = (Inl AssertionFailure, st))"
proof (intro conjI allI impI)
  assume "asTableCountPlanNode (planNodes st a) = None"
  then show "p_init st (Some a) limits = Some (Inl AssertionFailure, st)"
    by (simp add: p_init_def)
next
  fix node
  assume "asTableCountPlanNode (planNodes st a) = Some node \<and> getTargetTable node = None"
  then show "p_init st (Some a) limits = Some (Inl AssertionFailure, st)"
    by (simp add: p_init_def)
next
  fix node tt cols
  assume "asTableCountPlanNode (planNodes st a) = Some node \<and> getTargetTable node = Some tt \<and>
          getOutputSchema (planNodes st) a = Some (Inr cols) \<and> length cols \<noteq> 1"
  then show "p_init st (Some a) limits = Some (Inl AssertionFailure, st)"
    by (simp add: p_init_def)
next
  fix node tt cols
  assume "asTableCountPlanNode (planNodes st a) = Some node \<and> getTargetTable node = Some tt \<and>
          getOutputSchema (planNodes st) a = Some (Inr cols) \<and> length cols = 1"
  then show "\<exists>st'. p_init st (Some a) limits = Some (Inr True, st') \<and>
             m_outputTable (planNodes st' a) = Some (nextTable st) \<and>
             columnCount (tables st' (nextTable st)) = 1 \<and>
             asTableCountPlanNode (planNodes st' a) = Some node"
    using p_init_one_column [of st a node tt cols limits] by blast
next
  fix node ot tt
  assume "asTableCountPlanNode (planNodes st a) = Some node \<and>
        m_outputTable (planNodes st a) = Some ot \<and> columnCount (tables st ot) = 1 \<and>
        getTargetTable node = Some tt \<and> isPersistentTable (tables st tt) \<and>
        getPredicate node \<noteq> None"
  then show "p_execute st (Some a) params = (Inl AssertionFailure, st)"
    by (auto simp: p_execute_def)
qed

theorem p_init_checks_columns_not_predicate_witness:
  "p_init example_fresh (Some 10) None = Some (Inl AssertionFailure, example_fresh) \<and>
   p_init example_fresh (Some 24) None = Some (Inl AssertionFailure, example_fresh) \<and>
   map_option fst (p_init example_fresh (Some 23) None) = Some (Inr True) \<and>
   p_execute example_engine (Some 23) [] = (Inl AssertionFailure, example_engine)"
proof -
  have a: "p_init example_fresh (Some 10) None = Some (Inl AssertionFailure, example_fresh)"
    using p_init_checks_columns_not_predicate [of example_fresh 10 None "[]"]
    by (simp add: example_fresh_nodes)
  have b: "p_init example_fresh (Some 24) None = Some (Inl AssertionFailure, example_fresh)"
    using p_init_checks_columns_not_predicate [of example_fresh 24 None "[]"]
    by (simp add: example_fresh_nodes)
  have "\<exists>st'. p_init example_fresh (Some 23) None = Some (Inr True, st')"
    using p_init_checks_columns_not_predicate [of example_fresh 23 None "[]"]
    by (simp add: example_fresh_nodes) blast
  then have c: "map_option fst (p_init example_fresh (Some 23) None) = Some (Inr True)"
    by auto
  have d: "p_execute example_engine (Some 23) [] = (Inl AssertionFailure, example_engine)"
    using p_init_checks_columns_not_predicate [of example_engine 23 None "[]"]
    by (simp add: example_engine_nodes example_engine_tables)
  from a b c d show ?thesis by simp
qed

section \<open>The schema origin set by the deserializer\<close>

text \<open>
  C5. Let \<open>fromJSONObject\<close> build a node from a document, with a factory whose empty nodes
  have an empty output schema vector and a loader that leaves the schema members and the
  inline map of the node alone. Then the built node carries its tag by the three-way rule.
  If the document has the key OUTPUT_SCHEMA, its value is an array, the node owns one column
  per entry of the array, made from that entry and in the order of the entries, and
  \<open>m_validOutputColumnCount\<close> is the length of the array. Otherwise, if the node has an inline
  node of projection type, the tag is \<open>SCHEMA_UNDEFINED_SO_GET_FROM_INLINE_PROJECTION\<close>.
  Otherwise the tag is \<open>SCHEMA_UNDEFINED_SO_GET_FROM_CHILD\<close>.
\<close>

theorem fromJSONObject_schema_origin:
  assumes built: "fromJSONObject c obj pool = Inr (node, pool')"
      and factory: "\<forall>t n. getEmptyPlanNode c t = Inr n \<longrightarrow> m_outputSchema n = []"
      and loader: "\<forall>d n n'. loadFromJSONObject c d n = Inr n' \<longrightarrow>
                     m_validOutputColumnCount n' = m_validOutputColumnCount n \<and>
                     m_outputSchema n' = m_outputSchema n \<and>
                     m_inlineNodes n' = m_inlineNodes n"
  shows "(hasKey obj ''OUTPUT_SCHEMA'' \<longrightarrow>
            (\<exists>entries. valueForKey obj ''OUTPUT_SCHEMA'' = Inr (DomArray entries) \<and>
               mapE (newSchemaColumn c) entries = Inr (m_outputSchema (nodes pool' node)) \<and>
               length (m_outputSchema (nodes pool' node)) = length entries \<and>
               m_validOutputColumnCount (nodes pool' node) = int (length entries))) \<and>
         (\<not> hasKey obj ''OUTPUT_SCHEMA'' \<and>
          getInlinePlanNode (nodes pool') node PLAN_NODE_TYPE_PROJECTION \<noteq> None \<longrightarrow>
            m_validOutputColumnCount (nodes pool' node) =
              SCHEMA_UNDEFINED_SO_GET_FROM_INLINE_PROJECTION) \<and>
         (\<not> hasKey obj ''OUTPUT_SCHEMA'' \<and>
          getInlinePlanNode (nodes pool') node PLAN_NODE_TYPE_PROJECTION = None \<longrightarrow>
            m_validOutputColumnCount (nodes pool' node) = SCHEMA_UNDEFINED_SO_GET_FROM_CHILD)"
proof -
  let ?nd = "nextNode pool"
  from built have run:
    "(case fromJSONObject_begin c obj of
        Inl e \<Rightarrow> Inl e
      | Inr (node0, inlineNodeObjs) \<Rightarrow>
          (case fromJSONObject_inlineNodes c (nextNode pool) inlineNodeObjs
                  (pool\<lparr>nodes := (nodes pool)(nextNode pool := node0),
                        nextNode := Suc (nextNode pool)\<rparr>) of
             Inl e \<Rightarrow> Inl e
           | Inr pool1 \<Rightarrow>
               (case fromJSONObject_finish c obj (nodes pool1) (nextNode pool) of
                  Inl e \<Rightarrow> Inl e
                | Inr h \<Rightarrow> Inr (nextNode pool, pool1\<lparr>nodes := h\<rparr>)))) = Inr (node, pool')"
    by (simp only: fromJSONObject.simps(1))
  then obtain node0 objs where beg: "fromJSONObject_begin c obj = Inr (node0, objs)"
    by (cases "fromJSONObject_begin c obj") auto
  with run obtain pool1 where
    inl: "fromJSONObject_inlineNodes c ?nd objs
            (pool\<lparr>nodes := (nodes pool)(?nd := node0), nextNode := Suc ?nd\<rparr>) = Inr pool1"
    by (cases "fromJSONObject_inlineNodes c ?nd objs
            (pool\<lparr>nodes := (nodes pool)(?nd := node0), nextNode := Suc ?nd\<rparr>)") auto
  with run beg obtain h where fin: "fromJSONObject_finish c obj (nodes pool1) ?nd = Inr h"
    by (cases "fromJSONObject_finish c obj (nodes pool1) ?nd") auto
  with run beg inl have res: "node = ?nd" "pool' = pool1\<lparr>nodes := h\<rparr>"
    by simp_all
  from fromJSONObject_frame(2) [OF inl] have
    "nodes pool1 ?nd = node0\<lparr>m_inlineNodes := m_inlineNodes (nodes pool1 ?nd)\<rparr>" by simp
  from arg_cong [OF this, of m_outputSchema]
  have "m_outputSchema (nodes pool1 ?nd) = m_outputSchema node0" by simp
  with fromJSONObject_begin_fresh [OF beg factory]
  have empty1: "m_outputSchema (nodes pool1 ?nd) = []" by simp
  from finish_steps [OF fin] obtain h1 h2 where
    h1: "m_outputSchema (h1 ?nd) = m_outputSchema (nodes pool1 ?nd)"
        "m_inlineNodes (h1 ?nd) = m_inlineNodes (nodes pool1 ?nd)" and
    step: "fromJSONObject_outputSchema c obj h1 ?nd = Inr h2" and
    load: "loadFromJSONObject c obj (h2 ?nd) = Inr (h ?nd)"
    by blast
  from h1 empty1 have empty: "m_outputSchema (h1 ?nd) = []" by simp
  note os = outputSchema_step [OF step empty]
  from loader load have keep:
    "m_validOutputColumnCount (h ?nd) = m_validOutputColumnCount (h2 ?nd)"
    "m_outputSchema (h ?nd) = m_outputSchema (h2 ?nd)"
    "m_inlineNodes (h ?nd) = m_inlineNodes (h2 ?nd)"
    by blast+
  have final: "nodes pool' node = h ?nd" using res by simp
  have inl_eq: "getInlinePlanNode (nodes pool') node t = m_inlineNodes (h1 ?nd) t" for t
    using res keep(3) os(1) by (simp add: getInlinePlanNode_def split: option.splits)
  have a: "\<exists>entries. valueForKey obj ''OUTPUT_SCHEMA'' = Inr (DomArray entries) \<and>
               mapE (newSchemaColumn c) entries = Inr (m_outputSchema (nodes pool' node)) \<and>
               length (m_outputSchema (nodes pool' node)) = length entries \<and>
               m_validOutputColumnCount (nodes pool' node) = int (length entries)"
    if "hasKey obj ''OUTPUT_SCHEMA''"
  proof -
    from os(2) [OF that] obtain entries where
      e: "valueForKey obj ''OUTPUT_SCHEMA'' = Inr (DomArray entries)"
         "mapE (newSchemaColumn c) entries = Inr (m_outputSchema (h2 ?nd))"
         "m_validOutputColumnCount (h2 ?nd) = int (length entries)"
      by blast
    from mapE_length [OF e(2)] e keep final show ?thesis by auto
  qed
  have b: "m_validOutputColumnCount (nodes pool' node) = SCHEMA_UNDEFINED_SO_GET_FROM_INLINE_PROJECTION"
    if "\<not> hasKey obj ''OUTPUT_SCHEMA''"
       "getInlinePlanNode (nodes pool') node PLAN_NODE_TYPE_PROJECTION \<noteq> None"
    using os(3) [OF that(1)] that(2) final keep(1) by (simp add: inl_eq)
  have c: "m_validOutputColumnCount (nodes pool' node) = SCHEMA_UNDEFINED_SO_GET_FROM_CHILD"
    if "\<not> hasKey obj ''OUTPUT_SCHEMA''"
       "getInlinePlanNode (nodes pool') node PLAN_NODE_TYPE_PROJECTION = None"
    using os(4) [OF that(1)] that(2) final keep(1) by (simp add: inl_eq)
  from a b c show ?thesis by blast
qed

theorem fromJSONObject_schema_origin_witness:
  "(\<exists>pool'. fromJSONObject example_collaborators doc_projection example_pool = Inr (50, pool') \<and>
            length (m_outputSchema (nodes pool' 50)) = 2 \<and>
            m_validOutputColumnCount (nodes pool' 50) = 2) \<and>
   (\<exists>pool'. fromJSONObject example_collaborators doc_scan example_pool = Inr (50, pool') \<and>
            getInlinePlanNode (nodes pool') 50 PLAN_NODE_TYPE_PROJECTION = Some 51 \<and>
            m_validOutputColumnCount (nodes pool' 50) =
              SCHEMA_UNDEFINED_SO_GET_FROM_INLINE_PROJECTION) \<and>
   (\<exists>pool'. fromJSONObject example_collaborators doc_limit example_pool = Inr (50, pool') \<and>
            getInlinePlanNode (nodes pool') 50 PLAN_NODE_TYPE_PROJECTION = None \<and>
            m_validOutputColumnCount (nodes pool' 50) = SCHEMA_UNDEFINED_SO_GET_FROM_CHILD)"
proof (intro conjI)
  from built_projection obtain pool' where
    b: "fromJSONObject example_collaborators doc_projection example_pool = Inr (50, pool')"
    by blast
  from fromJSONObject_schema_origin [OF b example_collaborators_ok]
  have "length (m_outputSchema (nodes pool' 50)) = 2 \<and>
        m_validOutputColumnCount (nodes pool' 50) = 2"
    by (auto simp: example_documents)
  with b show "\<exists>pool'. fromJSONObject example_collaborators doc_projection example_pool = Inr (50, pool') \<and>
            length (m_outputSchema (nodes pool' 50)) = 2 \<and>
            m_validOutputColumnCount (nodes pool' 50) = 2"
    by blast
next
  from built_scan obtain pool' where
    b: "fromJSONObject example_collaborators doc_scan example_pool = Inr (50, pool')" and
    i: "getInlinePlanNode (nodes pool') 50 PLAN_NODE_TYPE_PROJECTION = Some 51"
    by blast
  from fromJSONObject_schema_origin [OF b example_collaborators_ok] i
  have "m_validOutputColumnCount (nodes pool' 50) = SCHEMA_UNDEFINED_SO_GET_FROM_INLINE_PROJECTION"
    by (simp add: example_documents)
  with b i show "\<exists>pool'. fromJSONObject example_collaborators doc_scan example_pool = Inr (50, pool') \<and>
            getInlinePlanNode (nodes pool') 50 PLAN_NODE_TYPE_PROJECTION = Some 51 \<and>
            m_validOutputColumnCount (nodes pool' 50) =
              SCHEMA_UNDEFINED_SO_GET_FROM_INLINE_PROJECTION"
    by blast
next
  from built_limit obtain pool' where
    b: "fromJSONObject example_collaborators doc_limit example_pool = Inr (50, pool')" and
    i: "getInlinePlanNode (nodes pool') 50 PLAN_NODE_TYPE_PROJECTION = None"
    by blast
  from fromJSONObject_schema_origin [OF b example_collaborators_ok] i
  have "m_validOutputColumnCount (nodes pool' 50) = SCHEMA_UNDEFINED_SO_GET_FROM_CHILD"
    by (simp add: example_documents)
  with b i show "\<exists>pool'. fromJSONObject example_collaborators doc_limit example_pool = Inr (50, pool') \<and>
            getInlinePlanNode (nodes pool') 50 PLAN_NODE_TYPE_PROJECTION = None \<and>
            m_validOutputColumnCount (nodes pool' 50) = SCHEMA_UNDEFINED_SO_GET_FROM_CHILD"
    by blast
qed

end
